theory Spec2Isabelle
  imports Complex_Main "HOL-Library.Log_Nat"
begin

section \<open>Values shared by the JavaScript modules\<close>

text \<open>
  An exception value as db.js reads it: the driver's errors carry \<open>code\<close>, \<open>errno\<close>,
  \<open>sqlState\<close> and \<open>sqlMessage\<close>; an \<open>Error\<close> made by the program or by the
  language (TypeError, ReferenceError) has none of them (\<open>undefined\<close> is \<open>None\<close>).
\<close>

record js_error =
  err_name :: string
  message :: string
  code :: "string option"
  errno :: "int option"
  sqlState :: "string option"
  sqlMessage :: "string option"

definition plain_error :: "string \<Rightarrow> string \<Rightarrow> js_error" where
  "plain_error n m =
     \<lparr>err_name = n, message = m, code = None, errno = None, sqlState = None, sqlMessage = None\<rparr>"

text \<open>Decimal printing of numbers inside template literals.\<close>

fun string_of_nat :: "nat \<Rightarrow> string" where
  "string_of_nat n =
     (if n < 10 then [char_of (48 + n)]
      else string_of_nat (n div 10) @ [char_of (48 + n mod 10)])"

declare string_of_nat.simps [simp del]

definition string_of_int :: "int \<Rightarrow> string" where
  "string_of_int i = (if i < 0 then CHR ''-'' # string_of_nat (nat (- i)) else string_of_nat (nat i))"

text \<open>\<open>Math.round\<close>: the nearest integer, halves rounded up.\<close>

definition Math_round :: "real \<Rightarrow> int" where
  "Math_round x = \<lfloor>x + 1 / 2\<rfloor>"

subsection \<open>Numbers\<close>

text \<open>
  A JavaScript number is an IEEE 754 double: a real number of the form \<open>m * 2^q\<close> with
  \<open>|m| < 2^53\<close> and \<open>q \<ge> -1074\<close>. Every arithmetic operation returns the double nearest
  to the exact result, ties going to the even significand. \<open>binade x\<close> is the exponent
  \<open>e\<close> with \<open>2^e \<le> |x| < 2^(e+1)\<close>, and -1022 below the normal range; doubles are
  spaced \<open>ulp x\<close> apart there. Results beyond the largest double (Infinity) and NaN do not
  occur in the computations of this file and are not modelled.
\<close>

definition round_even :: "real \<Rightarrow> int" where
  "round_even x =
     (let f = \<lfloor>x\<rfloor>; d = x - of_int f
      in if d < 1 / 2 then f else if 1 / 2 < d then f + 1 else if even f then f else f + 1)"

definition tiny :: nat where
  "tiny = 1074"

definition binade :: "real \<Rightarrow> int" where
  "binade x = max (bitlen \<lfloor>\<bar>x\<bar> * 2 ^ tiny\<rfloor> - int tiny - 1) (- 1022)"

definition ulp :: "real \<Rightarrow> real" where
  "ulp x = 2 powi (binade x - 52)"

definition fl :: "real \<Rightarrow> real" where
  "fl x = of_int (round_even (x / ulp x)) * ulp x"

text \<open>
  \<open>Math.pow\<close> with a whole exponent, taken to return the double nearest to the power
  (the powers of 1.5 that occur here are doubles themselves).
\<close>

definition Math_pow :: "real \<Rightarrow> nat \<Rightarrow> real" where
  "Math_pow x k = fl (x ^ k)"

text \<open>
  The logger is an output channel: every call appends one entry. The second argument of a
  call (an error object, a string, an object literal) is kept as data.
\<close>

datatype log_arg =
    NoArg
  | ErrorArg js_error
  | TextArg string
  | ParamsArg "string list"
  | DetailsArg "string option" "int option" "string option" "string option"
  | ConfigArg string string string nat

datatype log_entry = LogInfo string log_arg | LogError string log_arg

section \<open>backend/src/config/db.js: the Database class\<close>

text \<open>The \<open>database\<close> object of the configuration service.\<close>

record db_config =
  cfg_host :: string
  cfg_user :: string
  cfg_password :: string
  cfg_name :: string
  cfg_connectionLimit :: nat
  cfg_queueLimit :: nat

text \<open>The options object handed to \<open>mysql.createPool\<close>; the pool is known by it.\<close>

record pool_options =
  po_host :: string
  po_user :: string
  po_password :: string
  po_database :: string
  waitForConnections :: bool
  po_connectionLimit :: nat
  po_queueLimit :: nat
  enableKeepAlive :: bool
  keepAliveInitialDelay :: nat
  timezone :: string
  multipleStatements :: bool
  charset :: string
  namedPlaceholders :: bool

text \<open>The fields of a \<open>Database\<close> instance, as the constructor declares them.\<close>

record Database =
  pool :: "pool_options option"
  isConnected :: bool
  connectionErrors :: nat
  reconnectAttempts :: nat
  maxReconnectAttempts :: nat
  reconnectDelay :: real
  healthCheck :: "nat option"

text \<open>
  The instance together with what its methods do to the process around it: the log, the
  one-shot timers set with \<open>setTimeout\<close> (their delays in milliseconds, in the order of
  the calls; each of them runs \<open>initialize\<close> when it fires, and \<open>timeoutsFired\<close> counts
  those that have), the active \<open>setInterval\<close> timers (handle and period), the listeners
  registered with \<open>process.on\<close>, the connections taken from the pool and not yet
  released, and the calls of \<open>pool.end\<close>.
\<close>

record runtime = Database +
  logs :: "log_entry list"
  timeoutsSet :: "real list"
  timeoutsFired :: nat
  intervals :: "(nat \<times> nat) list"
  nextTimerId :: nat
  processListeners :: "string list"
  openConnections :: nat
  poolsEnded :: nat

definition logger_info :: "string \<Rightarrow> log_arg \<Rightarrow> runtime \<Rightarrow> runtime" where
  "logger_info m a s = s\<lparr>logs := logs s @ [LogInfo m a]\<rparr>"

definition logger_error :: "string \<Rightarrow> log_arg \<Rightarrow> runtime \<Rightarrow> runtime" where
  "logger_error m a s = s\<lparr>logs := logs s @ [LogError m a]\<rparr>"

subsection \<open>scheduleReconnect\<close>

text \<open>
  The delay of the attempt that has just been counted:
  \<open>Math.min(30000, this.reconnectDelay * Math.pow(1.5, this.reconnectAttempts - 1) *
  (1 + Math.random() * 0.2))\<close>, every operation rounded as the doubles round it. \<open>r\<close> is
  the value of \<open>Math.random()\<close>, and the literal \<open>0.2\<close> is the double nearest to 2/10.
\<close>

definition backoff_delay :: "real \<Rightarrow> nat \<Rightarrow> real \<Rightarrow> real" where
  "backoff_delay base attempts r =
     min 30000
       (fl (fl (base * Math_pow (3 / 2) (attempts - 1)) * fl (1 + fl (r * fl (2 / 10)))))"

definition scheduleReconnect :: "real \<Rightarrow> runtime \<Rightarrow> runtime" where
  "scheduleReconnect r s =
     (if reconnectAttempts s \<ge> maxReconnectAttempts s then
        logger_error
          (''Maximum reconnection attempts ('' @ string_of_nat (maxReconnectAttempts s)
             @ '') reached. Giving up.'') NoArg s
      else
        let s1 = s\<lparr>reconnectAttempts := reconnectAttempts s + 1\<rparr>;
            delay = backoff_delay (reconnectDelay s1) (reconnectAttempts s1) r;
            s2 = logger_info
                   (''Scheduling database reconnection attempt #''
                      @ string_of_nat (reconnectAttempts s1) @ '' in ''
                      @ string_of_int (Math_round (fl (delay / 1000))) @ '' seconds'') NoArg s1
        in s2\<lparr>timeoutsSet := timeoutsSet s2 @ [delay]\<rparr>)"

subsection \<open>testConnection\<close>

text \<open>
  What the world answers during one call of \<open>testConnection\<close>: the configuration
  service's \<open>database\<close> object, whether \<open>pool.getConnection()\<close> resolves, and the
  outcome of each statement run on the connection. A rejected promise is its error; the
  schemata query answers with the number of its rows, the \<open>SELECT 1\<close> with the
  \<open>connection_test\<close> column of its rows.
\<close>

record conn_env =
  ce_config :: "db_config option"
  ce_getConnection :: "js_error option"
  ce_schemata :: "js_error + nat"
  ce_createDatabase :: "js_error option"
  ce_useDatabase :: "js_error option"
  ce_select :: "js_error + int list"

definition release :: "runtime \<Rightarrow> runtime" where
  "release s = s\<lparr>openConnections := openConnections s - 1\<rparr>"

text \<open>The branch \<open>dbCheck.length === 0\<close>: create the database and switch to it.\<close>

definition create_database :: "string \<Rightarrow> conn_env \<Rightarrow> runtime \<Rightarrow> (js_error + unit) \<times> runtime" where
  "create_database dbName env s =
     (case ce_createDatabase env of
        Some e \<Rightarrow> (Inl e, s)
      | None \<Rightarrow>
          (let s1 = logger_info (''Created database: '' @ dbName) NoArg s
           in case ce_useDatabase env of
                Some e \<Rightarrow> (Inl e, s1)
              | None \<Rightarrow> (Inr (), s1)))"

text \<open>
  The status update after \<open>SELECT 1 AS connection_test\<close>. The result \<open>Some True\<close> is
  \<open>return true\<close>; \<open>None\<close> is falling off the end of the function (\<open>undefined\<close>).
\<close>

definition connection_verified :: "bool \<Rightarrow> int list \<Rightarrow> runtime \<Rightarrow> (js_error + bool option) \<times> runtime" where
  "connection_verified logSuccess result s =
     (case result of
        [] \<Rightarrow> (Inl (plain_error ''TypeError'' ''Cannot read properties of undefined''), s)
      | v # _ \<Rightarrow>
          if v = 1 then
            (if \<not> isConnected s then
               (let s1 = s\<lparr>isConnected := True, connectionErrors := 0, reconnectAttempts := 0\<rparr>
                in (Inr (Some True),
                    if logSuccess
                    then logger_info ''Database connection established successfully'' NoArg s1
                    else s1))
             else (Inr (Some True), s))
          else (Inr None, s))"

text \<open>The inner \<open>try\<close> block, run with a connection in hand.\<close>

definition testConnection_queries :: "bool \<Rightarrow> conn_env \<Rightarrow> runtime \<Rightarrow> (js_error + bool option) \<times> runtime" where
  "testConnection_queries logSuccess env s =
     (case ce_config env of
        None \<Rightarrow> (Inl (plain_error ''TypeError'' ''Cannot read properties of undefined''), s)
      | Some c \<Rightarrow>
          (case ce_schemata env of
             Inl e \<Rightarrow> (Inl e, s)
           | Inr n \<Rightarrow>
               (case (if n = 0 then create_database (cfg_name c) env s else (Inr (), s)) of
                  (Inl e, s1) \<Rightarrow> (Inl e, s1)
                | (Inr _, s1) \<Rightarrow>
                    (case ce_select env of
                       Inl e \<Rightarrow> (Inl e, s1)
                     | Inr result \<Rightarrow> connection_verified logSuccess result s1))))"

text \<open>The outer \<open>try\<close> block; \<open>finally\<close> releases the connection on every path.\<close>

definition testConnection_try :: "bool \<Rightarrow> conn_env \<Rightarrow> runtime \<Rightarrow> (js_error + bool option) \<times> runtime" where
  "testConnection_try logSuccess env s =
     (if pool s = None then (Inl (plain_error ''Error'' ''Database pool not initialized''), s)
      else case ce_getConnection env of
             Some e \<Rightarrow> (Inl e, s)
           | None \<Rightarrow>
               (case testConnection_queries logSuccess env
                       (s\<lparr>openConnections := openConnections s + 1\<rparr>) of
                  (r, s1) \<Rightarrow> (r, release s1)))"

text \<open>The \<open>switch (error.code)\<close> of the \<open>catch\<close> block.\<close>

definition switch_error_code :: "js_error \<Rightarrow> log_entry" where
  "switch_error_code e =
     (if code e = Some ''ER_ACCESS_DENIED_ERROR'' then
        LogError ''Access denied. Please check database username and password.'' NoArg
      else if code e = Some ''ECONNREFUSED'' then
        LogError ''Connection refused. Please check if MySQL server is running.'' NoArg
      else if code e = Some ''ER_BAD_DB_ERROR'' then
        LogError ''Database does not exist.'' NoArg
      else LogError ''Unknown database error:'' (TextArg (message e)))"

definition testConnection_catch :: "js_error \<Rightarrow> runtime \<Rightarrow> runtime" where
  "testConnection_catch e s =
     (let s1 = s\<lparr>isConnected := False, connectionErrors := connectionErrors s + 1\<rparr>;
          s2 = logger_error
                 (''Database connection test failed (Error #''
                    @ string_of_nat (connectionErrors s1) @ ''):'') (ErrorArg e) s1;
          s3 = logger_error ''Error details:''
                 (DetailsArg (code e) (errno e) (sqlState e) (sqlMessage e)) s2
      in s3\<lparr>logs := logs s3 @ [switch_error_code e]\<rparr>)"

text \<open>\<open>Inl e\<close> is \<open>throw e\<close>: the promise of the async method rejects with \<open>e\<close>.\<close>

definition testConnection :: "bool \<Rightarrow> conn_env \<Rightarrow> runtime \<Rightarrow> (js_error + bool option) \<times> runtime" where
  "testConnection logSuccess env s =
     (case testConnection_try logSuccess env s of
        (Inl e, s1) \<Rightarrow> (Inl e, testConnection_catch e s1)
      | (Inr v, s1) \<Rightarrow> (Inr v, s1))"

subsection \<open>getPool, query, getConnection\<close>

definition getPool :: "runtime \<Rightarrow> pool_options option" where
  "getPool s = pool s"

text \<open>
  A method call on \<open>this.pool\<close> while it is still \<open>null\<close> throws a TypeError inside the
  \<open>try\<close>, which the \<open>catch\<close> handles like a driver error.
\<close>

definition null_pool_error :: js_error where
  "null_pool_error = plain_error ''TypeError'' ''Cannot read properties of null''"

type_synonym rows = "string list list"

definition query :: "js_error + rows \<Rightarrow> string \<Rightarrow> string list \<Rightarrow> runtime \<Rightarrow> (js_error + rows) \<times> runtime" where
  "query executed sql params s =
     (case (if pool s = None then Inl null_pool_error else executed) of
        Inl e \<Rightarrow>
          (Inl e,
           logger_error ''Parameters:'' (ParamsArg params)
             (logger_error ''Query:'' (TextArg sql)
                (logger_error ''Database query error:'' (ErrorArg e) s)))
      | Inr results \<Rightarrow> (Inr results, s))"

definition getConnection :: "js_error option \<Rightarrow> runtime \<Rightarrow> (js_error + unit) \<times> runtime" where
  "getConnection got s =
     (case (if pool s = None then Some null_pool_error else got) of
        Some e \<Rightarrow> (Inl e, logger_error ''Error getting database connection:'' (ErrorArg e) s)
      | None \<Rightarrow> (Inr (), s\<lparr>openConnections := openConnections s + 1\<rparr>))"

subsection \<open>initializeSchema\<close>

text \<open>
  The identifiers db.js can name: its three imports, its own declarations, and the
  globals of the Node.js module scope that it uses. Reading any other identifier throws a
  ReferenceError.
\<close>

definition db_js_imports :: "string list" where
  "db_js_imports = [''mysql'', ''configService'', ''logger'']"

definition db_js_declarations :: "string list" where
  "db_js_declarations =
     [''Database'', ''database'', ''pool'', ''testConnection'', ''dbQuery'', ''getConnection'']"

definition db_js_globals :: "string list" where
  "db_js_globals =
     [''process'', ''URL'', ''Math'', ''Error'', ''setInterval'', ''clearInterval'', ''setTimeout'']"

definition resolve :: "string \<Rightarrow> js_error + unit" where
  "resolve x =
     (if x \<in> set (db_js_imports @ db_js_declarations @ db_js_globals) then Inr ()
      else Inl (plain_error ''ReferenceError'' (x @ '' is not defined'')))"

text \<open>
  The text of the schema file is a JavaScript string: a list of UTF-16 code units.
  \<open>schema.split(';').map(s => s.trim()).filter(s => s.length > 0)\<close>, where \<open>trim\<close>
  strips the white space and the line terminators of the language: TAB, LF, VT, FF, CR,
  SP, NBSP, U+1680, U+2000 to U+200A, U+2028, U+2029, U+202F, U+205F, U+3000 and U+FEFF.
\<close>

type_synonym js_string = "nat list"

fun split_on :: "nat \<Rightarrow> js_string \<Rightarrow> js_string list" where
  "split_on c [] = [[]]"
| "split_on c (x # xs) =
     (if x = c then [] # split_on c xs
      else (case split_on c xs of [] \<Rightarrow> [[x]] | w # ws \<Rightarrow> (x # w) # ws))"

definition is_space :: "nat \<Rightarrow> bool" where
  "is_space c =
     (c \<in> set [9, 10, 11, 12, 13, 32, 160, 5760, 8232, 8233, 8239, 8287, 12288, 65279]
      \<or> (8192 \<le> c \<and> c \<le> 8202))"

definition trim :: "js_string \<Rightarrow> js_string" where
  "trim s = rev (dropWhile is_space (rev (dropWhile is_space s)))"

text \<open>59 is the semicolon.\<close>

definition statements :: "js_string \<Rightarrow> js_string list" where
  "statements schema = filter (\<lambda>s. length s > 0) (map trim (split_on 59 schema))"

text \<open>The \<open>for\<close> loop: the first statement that fails ends it.\<close>

fun execute_each :: "(js_string \<Rightarrow> js_error option) \<Rightarrow> js_string list \<Rightarrow> js_error option" where
  "execute_each ex [] = None"
| "execute_each ex (sql # rest) =
     (case ex (sql @ [59]) of Some e \<Rightarrow> Some e | None \<Rightarrow> execute_each ex rest)"

record schema_env =
  se_getConnection :: "js_error option"
  se_readFile :: "js_error + js_string"
  se_execute :: "js_string \<Rightarrow> js_error option"

text \<open>The \<open>try\<close> block of \<open>initializeSchema\<close>; \<open>Some e\<close> is \<open>throw e\<close>.\<close>

definition initializeSchema_try :: "schema_env \<Rightarrow> js_error option" where
  "initializeSchema_try env =
     (case resolve ''fs'' of
        Inl e \<Rightarrow> Some e
      | Inr _ \<Rightarrow>
          (case se_readFile env of
             Inl e \<Rightarrow> Some e
           | Inr schema \<Rightarrow> execute_each (se_execute env) (statements schema)))"

definition initializeSchema :: "schema_env \<Rightarrow> runtime \<Rightarrow> (js_error + unit) \<times> runtime" where
  "initializeSchema env s =
     (case getConnection (se_getConnection env) s of
        (Inl e, s1) \<Rightarrow> (Inl e, s1)
      | (Inr _, s1) \<Rightarrow>
          (let s2 = logger_info ''Initializing database schema...'' NoArg s1
           in case initializeSchema_try env of
                Some e \<Rightarrow>
                  (Inl e,
                   release (logger_error ''Error initializing database schema:'' (ErrorArg e) s2))
              | None \<Rightarrow>
                  (Inr (),
                   release (logger_info ''Database schema initialized successfully'' NoArg s2))))"

subsection \<open>setupConnectionMonitoring and the health check\<close>

definition clearInterval :: "nat \<Rightarrow> runtime \<Rightarrow> runtime" where
  "clearInterval h s = s\<lparr>intervals := filter (\<lambda>(i, period). i \<noteq> h) (intervals s)\<rparr>"

text \<open>
  \<open>setInterval\<close> hands out a fresh handle; the health check is registered with a period
  of 30000 ms. Every call also registers the three process listeners anew.
\<close>

definition setupConnectionMonitoring :: "runtime \<Rightarrow> runtime" where
  "setupConnectionMonitoring s =
     (let s1 = (case healthCheck s of Some h \<Rightarrow> clearInterval h s | None \<Rightarrow> s);
          h = nextTimerId s1;
          s2 = s1\<lparr>healthCheck := Some h, intervals := intervals s1 @ [(h, 30000)],
                  nextTimerId := h + 1\<rparr>
      in s2\<lparr>processListeners := processListeners s2 @ [''exit'', ''SIGINT'', ''SIGTERM'']\<rparr>)"

text \<open>
  The callback given to \<open>setInterval\<close>. \<open>r\<close> is what \<open>Math.random()\<close> would return
  inside \<open>scheduleReconnect\<close>.
\<close>

definition healthCheckCallback :: "real \<Rightarrow> conn_env \<Rightarrow> runtime \<Rightarrow> runtime" where
  "healthCheckCallback r env s =
     (case testConnection False env s of
        (Inl e, s1) \<Rightarrow>
          (let s2 = logger_error ''Database health check failed:'' (ErrorArg e) s1
           in if isConnected s2 then scheduleReconnect r (s2\<lparr>isConnected := False\<rparr>) else s2)
      | (Inr _, s1) \<Rightarrow> s1)"

subsection \<open>initialize\<close>

record init_env =
  ie_config :: "db_config option"
  ie_conn :: conn_env
  ie_schema :: schema_env
  ie_random :: real

definition createPool :: "db_config \<Rightarrow> pool_options" where
  "createPool c =
     \<lparr>po_host = cfg_host c, po_user = cfg_user c, po_password = cfg_password c,
      po_database = cfg_name c, waitForConnections = True,
      po_connectionLimit = cfg_connectionLimit c, po_queueLimit = cfg_queueLimit c,
      enableKeepAlive = True, keepAliveInitialDelay = 10000, timezone = ''+00:00'',
      multipleStatements = True, charset = ''utf8mb4'', namedPlaceholders = True\<rparr>"

text \<open>
  The statements of the \<open>try\<close> block up to the first \<open>await\<close>: the pool is created
  from the configuration and the monitoring is set up.
\<close>

definition initialize_pool :: "db_config \<Rightarrow> runtime \<Rightarrow> runtime" where
  "initialize_pool c s =
     (let s1 = logger_info ''Initializing database connection with config:''
                 (ConfigArg (cfg_host c) (cfg_user c) (cfg_name c) (cfg_connectionLimit c)) s;
          s2 = s1\<lparr>pool := Some (createPool c)\<rparr>;
          s3 = logger_info ''Database connection pool initialized'' NoArg s2
      in setupConnectionMonitoring s3)"

text \<open>
  The \<open>try\<close> block. A missing \<open>database\<close> object makes \<open>dbConfig.host\<close> throw before
  the pool is created.
\<close>

definition initialize_try :: "init_env \<Rightarrow> runtime \<Rightarrow> (js_error + unit) \<times> runtime" where
  "initialize_try env s =
     (case ie_config env of
        None \<Rightarrow> (Inl (plain_error ''TypeError'' ''Cannot read properties of undefined''), s)
      | Some c \<Rightarrow>
          (case testConnection True (ie_conn env) (initialize_pool c s) of
             (Inl e, s1) \<Rightarrow> (Inl e, s1)
           | (Inr _, s1) \<Rightarrow> initializeSchema (ie_schema env) s1))"

text \<open>The \<open>catch\<close> block.\<close>

definition initialize_catch :: "js_error \<Rightarrow> real \<Rightarrow> runtime \<Rightarrow> runtime" where
  "initialize_catch e r s =
     scheduleReconnect r
       ((logger_error ''Failed to initialize database connection pool:'' (ErrorArg e) s)
          \<lparr>isConnected := False\<rparr>)"

definition initialize :: "init_env \<Rightarrow> runtime \<Rightarrow> runtime" where
  "initialize env s =
     (case initialize_try env s of
        (Inl e, s1) \<Rightarrow> initialize_catch e (ie_random env) s1
      | (Inr _, s1) \<Rightarrow> s1)"

subsection \<open>cleanup and the constructor\<close>

text \<open>\<open>ended\<close> is the rejection of \<open>pool.end()\<close>, if any.\<close>

definition cleanup :: "js_error option \<Rightarrow> runtime \<Rightarrow> runtime" where
  "cleanup ended s =
     (let s1 = logger_info ''Closing database connection pool'' NoArg s;
          s2 = (case healthCheck s1 of
                  Some h \<Rightarrow> (clearInterval h s1)\<lparr>healthCheck := None\<rparr>
                | None \<Rightarrow> s1)
      in if pool s2 \<noteq> None then
           (let s3 = s2\<lparr>poolsEnded := poolsEnded s2 + 1\<rparr>
            in case ended of
                 Some err \<Rightarrow> logger_error ''Error closing database connection pool:'' (ErrorArg err) s3
               | None \<Rightarrow> s3)
         else s2)"

definition constructed :: runtime where
  "constructed =
     \<lparr>pool = None, isConnected = False, connectionErrors = 0, reconnectAttempts = 0,
      maxReconnectAttempts = 10, reconnectDelay = 5000, healthCheck = None,
      logs = [], timeoutsSet = [], timeoutsFired = 0, intervals = [], nextTimerId = 0,
      processListeners = [], openConnections = 0, poolsEnded = 0\<rparr>"

text \<open>\<open>new Database()\<close>: the field initialisers, then \<open>this.initialize()\<close>.\<close>

definition new_Database :: "init_env \<Rightarrow> runtime" where
  "new_Database env = initialize env constructed"

subsection \<open>The instance over time\<close>

text \<open>
  Whatever can happen to the singleton after its construction: a pending one-shot timer
  fires (it runs \<open>initialize\<close>), the health-check interval fires, or some module calls a
  method of the exported object. Each callback and each call runs to its end before the
  next one starts; its argument is what the world answers during it.
\<close>

datatype event =
    TimeoutFires init_env
  | IntervalFires real conn_env
  | CallInitialize init_env
  | CallSetupConnectionMonitoring
  | CallTestConnection bool conn_env
  | CallScheduleReconnect real
  | CallCleanup "js_error option"
  | CallGetPool
  | CallQuery "js_error + rows" string "string list"
  | CallGetConnection "js_error option"
  | CallInitializeSchema schema_env

fun step :: "event \<Rightarrow> runtime \<Rightarrow> runtime" where
  "step (TimeoutFires env) s =
     (if timeoutsFired s < length (timeoutsSet s)
      then initialize env (s\<lparr>timeoutsFired := timeoutsFired s + 1\<rparr>) else s)"
| "step (IntervalFires r env) s =
     (if intervals s \<noteq> [] then healthCheckCallback r env s else s)"
| "step (CallInitialize env) s = initialize env s"
| "step CallSetupConnectionMonitoring s = setupConnectionMonitoring s"
| "step (CallTestConnection logSuccess env) s = snd (testConnection logSuccess env s)"
| "step (CallScheduleReconnect r) s = scheduleReconnect r s"
| "step (CallCleanup ended) s = cleanup ended s"
| "step CallGetPool s = s"
| "step (CallQuery executed sql params) s = snd (query executed sql params s)"
| "step (CallGetConnection got) s = snd (getConnection got s)"
| "step (CallInitializeSchema env) s = snd (initializeSchema env s)"

fun run :: "event list \<Rightarrow> runtime \<Rightarrow> runtime" where
  "run [] s = s"
| "run (e # es) s = run es (step e s)"

subsection \<open>Connection tests that pass\<close>

text \<open>
  The answers with which \<open>testConnection\<close>, run on an existing pool, returns \<open>true\<close>:
  a connection is handed out, every statement succeeds and the first row of the
  \<open>SELECT 1\<close> holds 1.
\<close>

definition connects :: "conn_env \<Rightarrow> bool" where
  "connects env =
     (ce_config env \<noteq> None \<and> ce_getConnection env = None \<and>
      (case ce_schemata env of
         Inl e \<Rightarrow> False
       | Inr n \<Rightarrow>
           if n = 0 then ce_createDatabase env = None \<and> ce_useDatabase env = None else True) \<and>
      (case ce_select env of
         Inl e \<Rightarrow> False
       | Inr result \<Rightarrow> (case result of [] \<Rightarrow> False | v # _ \<Rightarrow> v = 1)))"

text \<open>The events during which a connection test can pass.\<close>

fun may_connect :: "event \<Rightarrow> bool" where
  "may_connect (TimeoutFires env) = (ie_config env \<noteq> None \<and> connects (ie_conn env))"
| "may_connect (IntervalFires r env) = connects env"
| "may_connect (CallInitialize env) = (ie_config env \<noteq> None \<and> connects (ie_conn env))"
| "may_connect (CallTestConnection logSuccess env) = connects env"
| "may_connect CallSetupConnectionMonitoring = False"
| "may_connect (CallScheduleReconnect r) = False"
| "may_connect (CallCleanup ended) = False"
| "may_connect CallGetPool = False"
| "may_connect (CallQuery executed sql params) = False"
| "may_connect (CallGetConnection got) = False"
| "may_connect (CallInitializeSchema env) = False"

text \<open>The attempt counter as the \<open>catch\<close> block of \<open>initialize\<close> finds it.\<close>

definition attempts_before_catch :: "init_env \<Rightarrow> runtime \<Rightarrow> nat" where
  "attempts_before_catch env s =
     (if ie_config env \<noteq> None \<and> connects (ie_conn env) \<and> \<not> isConnected s then 0
      else reconnectAttempts s)"

subsection \<open>Two worlds: the server answers, the server refuses\<close>

definition ECONNREFUSED :: js_error where
  "ECONNREFUSED =
     \<lparr>err_name = ''Error'', message = ''connect ECONNREFUSED 127.0.0.1:3306'',
      code = Some ''ECONNREFUSED'', errno = Some (- 111), sqlState = None,
      sqlMessage = None\<rparr>"

definition quiz_config :: db_config where
  "quiz_config =
     \<lparr>cfg_host = ''localhost'', cfg_user = ''root'', cfg_password = ''secret'',
      cfg_name = ''quiz'', cfg_connectionLimit = 10, cfg_queueLimit = 0\<rparr>"

definition server_up :: conn_env where
  "server_up =
     \<lparr>ce_config = Some quiz_config, ce_getConnection = None, ce_schemata = Inr 1,
      ce_createDatabase = None, ce_useDatabase = None, ce_select = Inr [1]\<rparr>"

definition server_down :: conn_env where
  "server_down = server_up\<lparr>ce_getConnection := Some ECONNREFUSED\<rparr>"

definition schema_file :: schema_env where
  "schema_file = \<lparr>se_getConnection = None, se_readFile = Inr [], se_execute = (\<lambda>sql. None)\<rparr>"

definition while_up :: init_env where
  "while_up =
     \<lparr>ie_config = Some quiz_config, ie_conn = server_up, ie_schema = schema_file,
      ie_random = 1 / 2\<rparr>"

definition while_down :: init_env where
  "while_down = while_up\<lparr>ie_conn := server_down\<rparr>"

text \<open>
  An instance that has given up: the pool exists, the counter stands at 10 and eleven
  connection tests have failed.
\<close>

definition gave_up :: runtime where
  "gave_up = constructed\<lparr>pool := Some (createPool quiz_config), reconnectAttempts := 10,
                connectionErrors := 11\<rparr>"

text \<open>
  The instance that the server has refused throughout: the constructor's attempt and the
  ten timer-driven attempts after it.
\<close>

definition abandoned :: runtime where
  "abandoned = run (replicate 10 (TimeoutFires while_down)) (new_Database while_down)"

section \<open>The browser's global error handler\<close>











section \<open>The validation middleware\<close>

text \<open>
  An entry of \<open>validationResult(req).array()\<close>, an entry of the response's \<open>errors\<close>, and
  the JSON body. The fields \<open>message\<close> of \<open>field_error\<close> and of \<open>js_error\<close> share their
  name; from here on \<open>message\<close> is the former.
\<close>

record validation_error =
  param :: string
  msg :: string

record field_error =
  field :: string
  message :: string

record error_body =
  success :: bool
  errors :: "field_error list"

text \<open>What the middleware does with \<open>res\<close> and \<open>next\<close>, call by call.\<close>

datatype express_call = Status nat | Json error_body | Next

definition validate :: "validation_error list \<Rightarrow> express_call list" where
  "validate validationResult =
     (if \<not> (validationResult = []) then
        [Status 400,
         Json \<lparr>success = False,
               errors = map (\<lambda>error. \<lparr>field = param error, message = msg error\<rparr>)
                          validationResult\<rparr>]
      else [Next])"

section \<open>The schema (SQL)\<close>

subsection \<open>The statements of the file\<close>

datatype sql_type = SqlInt | Varchar nat | SqlText | SqlEnum "string list" | SqlTimestamp | SqlJson

datatype sql_default = DefaultString string | DefaultNumber int | CurrentTimestamp

record column =
  col_name :: string
  col_type :: sql_type
  col_not_null :: bool
  col_primary_key :: bool
  col_auto_increment :: bool
  col_unique :: bool
  col_default :: "sql_default option"
  col_on_update :: "sql_default option"

definition col :: "string \<Rightarrow> sql_type \<Rightarrow> column" where
  "col n ty =
     \<lparr>col_name = n, col_type = ty, col_not_null = False, col_primary_key = False,
      col_auto_increment = False, col_unique = False, col_default = None,
      col_on_update = None\<rparr>"

datatype ref_action = Cascade | SetNull | Restrict | NoAction

record foreign_key =
  fk_column :: string
  fk_table :: string
  fk_ref_column :: string
  fk_on_delete :: ref_action

record create_table =
  if_not_exists :: bool
  ct_name :: string
  ct_columns :: "column list"
  ct_foreign_keys :: "foreign_key list"
  ct_indexes :: "(bool \<times> string \<times> string) list"
  ct_options :: "string list"

definition table_options :: "string list" where
  "table_options = [''ENGINE=InnoDB'', ''DEFAULT CHARSET=utf8mb4'', ''COLLATE=utf8mb4_unicode_ci'']"

definition created_at :: column where
  "created_at = (col ''created_at'' SqlTimestamp)\<lparr>col_default := Some CurrentTimestamp\<rparr>"

definition updated_at :: column where
  "updated_at =
     (col ''updated_at'' SqlTimestamp)
       \<lparr>col_default := Some CurrentTimestamp, col_on_update := Some CurrentTimestamp\<rparr>"

text \<open>The two foreign keys: \<open>quizzes.user_id\<close> to \<open>users.id\<close> and \<open>questions.quiz_id\<close> to \<open>quizzes.id\<close>.\<close>

definition users_fk :: foreign_key where
  "users_fk = \<lparr>fk_column = ''user_id'', fk_table = ''users'', fk_ref_column = ''id'', fk_on_delete = Cascade\<rparr>"

definition quizzes_fk :: foreign_key where
  "quizzes_fk = \<lparr>fk_column = ''quiz_id'', fk_table = ''quizzes'', fk_ref_column = ''id'', fk_on_delete = Cascade\<rparr>"

text \<open>An index is (unique?, name, column).\<close>

definition users :: create_table where
  "users =
     \<lparr>if_not_exists = True, ct_name = ''users'',
      ct_columns =
        [(col ''id'' SqlInt)\<lparr>col_primary_key := True, col_auto_increment := True\<rparr>,
         (col ''email'' (Varchar 255))\<lparr>col_not_null := True, col_unique := True\<rparr>,
         (col ''password'' (Varchar 255))\<lparr>col_not_null := True\<rparr>,
         col ''name'' (Varchar 255),
         (col ''role'' (SqlEnum [''admin'', ''user'']))\<lparr>col_default := Some (DefaultString ''user'')\<rparr>,
         created_at, updated_at,
         col ''last_login'' SqlTimestamp],
      ct_foreign_keys = [],
      ct_indexes = [(True, ''email_idx'', ''email'')],
      ct_options = table_options\<rparr>"

definition quizzes :: create_table where
  "quizzes =
     \<lparr>if_not_exists = True, ct_name = ''quizzes'',
      ct_columns =
        [(col ''id'' SqlInt)\<lparr>col_primary_key := True, col_auto_increment := True\<rparr>,
         (col ''user_id'' SqlInt)\<lparr>col_not_null := True\<rparr>,
         (col ''title'' (Varchar 255))\<lparr>col_not_null := True\<rparr>,
         col ''description'' SqlText,
         col ''topic'' (Varchar 255),
         (col ''difficulty'' (SqlEnum [''easy'', ''medium'', ''hard'']))
           \<lparr>col_default := Some (DefaultString ''medium'')\<rparr>,
         created_at, updated_at],
      ct_foreign_keys = [users_fk],
      ct_indexes = [(False, ''user_id_idx'', ''user_id''), (False, ''title_idx'', ''title'')],
      ct_options = table_options\<rparr>"

definition questions :: create_table where
  "questions =
     \<lparr>if_not_exists = True, ct_name = ''questions'',
      ct_columns =
        [(col ''id'' SqlInt)\<lparr>col_primary_key := True, col_auto_increment := True\<rparr>,
         (col ''quiz_id'' SqlInt)\<lparr>col_not_null := True\<rparr>,
         (col ''question_text'' SqlText)\<lparr>col_not_null := True\<rparr>,
         (col ''question_type'' (SqlEnum [''multiple_choice'', ''true_false'', ''short_answer'']))
           \<lparr>col_default := Some (DefaultString ''multiple_choice'')\<rparr>,
         (col ''correct_answer'' SqlText)\<lparr>col_not_null := True\<rparr>,
         col ''options'' SqlJson,
         col ''explanation'' SqlText,
         (col ''points'' SqlInt)\<lparr>col_default := Some (DefaultNumber 1)\<rparr>,
         created_at],
      ct_foreign_keys = [quizzes_fk],
      ct_indexes = [(False, ''quiz_id_idx'', ''quiz_id'')],
      ct_options = table_options\<rparr>"

definition schema_sql :: "create_table list" where
  "schema_sql = [users, quizzes, questions]"

subsection \<open>What the statements mean to the database engine\<close>

text \<open>
  A database is its tables in the order of their creation, each with the statement that
  declared it and its rows; a row gives a value to each of its columns.
\<close>

datatype sql_value = Null | IntV int | TextV string

type_synonym row = "(string \<times> sql_value) list"

record table =
  decl :: create_table
  table_rows :: "row list"

type_synonym database = "(string \<times> table) list"

datatype sql_error =
    TableExists string
  | CannotAddForeignKey string
  | RowIsReferenced string
  | CascadeTooDeep

text \<open>
  A foreign key can be declared when its own column exists and the table it names exists
  (or is the table being created) and has the referenced column.
\<close>

definition foreign_key_ok :: "database \<Rightarrow> create_table \<Rightarrow> foreign_key \<Rightarrow> bool" where
  "foreign_key_ok db ct fk =
     (fk_column fk \<in> set (map col_name (ct_columns ct)) \<and>
      (case (if fk_table fk = ct_name ct then Some ct
             else map_option decl (map_of db (fk_table fk))) of
         None \<Rightarrow> False
       | Some parent \<Rightarrow> fk_ref_column fk \<in> set (map col_name (ct_columns parent))))"

text \<open>
  \<open>CREATE TABLE\<close>: with \<open>IF NOT EXISTS\<close> a table of that name, whatever its shape, makes
  the statement do nothing; without it the statement fails.
\<close>

definition create_table_stmt :: "create_table \<Rightarrow> database \<Rightarrow> sql_error + database" where
  "create_table_stmt ct db =
     (if map_of db (ct_name ct) \<noteq> None then
        (if if_not_exists ct then Inr db else Inl (TableExists (ct_name ct)))
      else if list_all (foreign_key_ok db ct) (ct_foreign_keys ct) then
        Inr (db @ [(ct_name ct, \<lparr>decl = ct, table_rows = []\<rparr>)])
      else Inl (CannotAddForeignKey (ct_name ct)))"

text \<open>
  Running the statements of a script one after the other, as the loop of
  \<open>initializeSchema\<close> would: the first error ends the run, and what the earlier
  statements created stays.
\<close>

fun run_script :: "create_table list \<Rightarrow> database \<Rightarrow> sql_error option \<times> database" where
  "run_script [] db = (None, db)"
| "run_script (ct # rest) db =
     (case create_table_stmt ct db of
        Inl e \<Rightarrow> (Some e, db)
      | Inr db1 \<Rightarrow> run_script rest db1)"

definition rows_of :: "database \<Rightarrow> string \<Rightarrow> row list" where
  "rows_of db t = (case map_of db t of None \<Rightarrow> [] | Some tb \<Rightarrow> table_rows tb)"

definition set_rows :: "string \<Rightarrow> row list \<Rightarrow> database \<Rightarrow> database" where
  "set_rows t rs db = map (\<lambda>(n, tb). if n = t then (n, tb\<lparr>table_rows := rs\<rparr>) else (n, tb)) db"

text \<open>The foreign keys that point at a table, each with the table that declares it.\<close>

definition referencing :: "database \<Rightarrow> string \<Rightarrow> (string \<times> foreign_key) list" where
  "referencing db parent =
     concat (map (\<lambda>(n, tb). map (\<lambda>fk. (n, fk))
                                (filter (\<lambda>fk. fk_table fk = parent) (ct_foreign_keys (decl tb))))
               db)"

text \<open>A child row refers to one of the parent rows \<open>ps\<close>; NULL refers to nothing.\<close>

definition refers :: "foreign_key \<Rightarrow> row list \<Rightarrow> row \<Rightarrow> bool" where
  "refers fk ps r =
     (case map_of r (fk_column fk) of
        None \<Rightarrow> False
      | Some Null \<Rightarrow> False
      | Some v \<Rightarrow> Some v \<in> set (map (\<lambda>p. map_of p (fk_ref_column fk)) ps))"

definition set_column :: "string \<Rightarrow> sql_value \<Rightarrow> row \<Rightarrow> row" where
  "set_column c v r = map (\<lambda>(k, x). if k = c then (k, v) else (k, x)) r"

text \<open>
  \<open>DELETE\<close> of the rows of \<open>t\<close> that satisfy \<open>P\<close>. Before the rows go, every foreign key
  that points at \<open>t\<close> acts on the rows that refer to them, as its \<open>ON DELETE\<close> clause
  says; a cascade is itself a delete, one level deeper, and \<open>d\<close> levels are left.
\<close>

fun delete_rows :: "nat \<Rightarrow> string \<Rightarrow> (row \<Rightarrow> bool) \<Rightarrow> database \<Rightarrow> sql_error + database"
  and on_delete :: "nat \<Rightarrow> (string \<times> foreign_key) list \<Rightarrow> row list \<Rightarrow> database \<Rightarrow> sql_error + database"
where
  "delete_rows d t P db =
     (let victims = filter P (rows_of db t)
      in if victims = [] then Inr db
         else (case on_delete d (referencing db t) victims db of
                 Inl e \<Rightarrow> Inl e
               | Inr db1 \<Rightarrow> Inr (set_rows t (filter (\<lambda>r. \<not> P r) (rows_of db1 t)) db1)))"
| "on_delete d [] victims db = Inr db"
| "on_delete d ((child, fk) # rest) victims db =
     (case (case fk_on_delete fk of
              Cascade \<Rightarrow>
                (case d of
                   0 \<Rightarrow> Inl CascadeTooDeep
                 | Suc d' \<Rightarrow> delete_rows d' child (refers fk victims) db)
            | SetNull \<Rightarrow>
                Inr (set_rows child
                       (map (\<lambda>r. if refers fk victims r then set_column (fk_column fk) Null r else r)
                          (rows_of db child)) db)
            | Restrict \<Rightarrow>
                if list_ex (refers fk victims) (rows_of db child)
                then Inl (RowIsReferenced child) else Inr db
            | NoAction \<Rightarrow>
                if list_ex (refers fk victims) (rows_of db child)
                then Inl (RowIsReferenced child) else Inr db) of
        Inl e \<Rightarrow> Inl e
      | Inr db1 \<Rightarrow> on_delete d rest victims db1)"





text \<open>The database of the schema with given rows, and one with two users.\<close>

definition three_tables :: "row list \<Rightarrow> row list \<Rightarrow> row list \<Rightarrow> database" where
  "three_tables ru rq rx =
     [(''users'', \<lparr>decl = users, table_rows = ru\<rparr>),
      (''quizzes'', \<lparr>decl = quizzes, table_rows = rq\<rparr>),
      (''questions'', \<lparr>decl = questions, table_rows = rx\<rparr>)]"


section \<open>Properties of the Database class\<close>

subsection \<open>What each method leaves alone\<close>

lemmas log_defs = logger_info_def logger_error_def

lemma scheduleReconnect_frame:
  "maxReconnectAttempts (scheduleReconnect r s) = maxReconnectAttempts s"
  "reconnectDelay (scheduleReconnect r s) = reconnectDelay s"
  "timeoutsFired (scheduleReconnect r s) = timeoutsFired s"
  "isConnected (scheduleReconnect r s) = isConnected s"
  "pool (scheduleReconnect r s) = pool s"
  "intervals (scheduleReconnect r s) = intervals s"
  by (simp_all add: scheduleReconnect_def log_defs Let_def)

lemma scheduleReconnect_attempts:
  "reconnectAttempts (scheduleReconnect r s) =
     (if maxReconnectAttempts s \<le> reconnectAttempts s then reconnectAttempts s
      else reconnectAttempts s + 1)"
  by (simp add: scheduleReconnect_def log_defs Let_def)

lemma scheduleReconnect_timeouts:
  "timeoutsSet (scheduleReconnect r s) =
     (if maxReconnectAttempts s \<le> reconnectAttempts s then timeoutsSet s
      else timeoutsSet s @ [backoff_delay (reconnectDelay s) (reconnectAttempts s + 1) r])"
  by (simp add: scheduleReconnect_def log_defs Let_def)

lemma truncate_fields:
  "Database.truncate s' = Database.truncate s \<Longrightarrow>
     pool s' = pool s \<and> isConnected s' = isConnected s \<and> connectionErrors s' = connectionErrors s
     \<and> reconnectAttempts s' = reconnectAttempts s \<and> maxReconnectAttempts s' = maxReconnectAttempts s
     \<and> reconnectDelay s' = reconnectDelay s \<and> healthCheck s' = healthCheck s"
  by (cases s, cases s') (simp add: Database.truncate_def)

lemmas queries_defs = testConnection_queries_def create_database_def connection_verified_def
  logger_info_def logger_error_def Let_def

lemma testConnection_queries_frame:
  assumes "testConnection_queries l env s = (r, s')"
  shows "maxReconnectAttempts s' = maxReconnectAttempts s" and "reconnectDelay s' = reconnectDelay s"
    and "timeoutsSet s' = timeoutsSet s" and "timeoutsFired s' = timeoutsFired s"
    and "pool s' = pool s" and "healthCheck s' = healthCheck s" and "intervals s' = intervals s"
    and "openConnections s' = openConnections s"
  using assms
  by (auto simp: queries_defs split: option.splits sum.splits if_splits list.splits)

lemma testConnection_queries_status:
  assumes "testConnection_queries l env s = (r, s')"
  shows "r = Inr (Some True) \<longleftrightarrow> connects (env\<lparr>ce_getConnection := None\<rparr>)"
    and "reconnectAttempts s' = (if r = Inr (Some True) \<and> \<not> isConnected s then 0 else reconnectAttempts s)"
    and "connectionErrors s' = (if r = Inr (Some True) \<and> \<not> isConnected s then 0 else connectionErrors s)"
    and "isConnected s' = (if r = Inr (Some True) then True else isConnected s)"
  using assms
  by (auto simp: queries_defs connects_def split: option.splits sum.splits if_splits list.splits)


lemmas testConnection_defs = testConnection_def testConnection_try_def testConnection_catch_def
  release_def queries_defs

lemma testConnection_frame:
  assumes "testConnection l env s = (r, s')"
  shows "maxReconnectAttempts s' = maxReconnectAttempts s" and "reconnectDelay s' = reconnectDelay s"
    and "timeoutsSet s' = timeoutsSet s" and "timeoutsFired s' = timeoutsFired s"
    and "pool s' = pool s" and "healthCheck s' = healthCheck s" and "intervals s' = intervals s"
  using assms
  by (auto simp: testConnection_defs split: option.splits sum.splits if_splits list.splits)

lemma testConnection_status:
  assumes "testConnection l env s = (r, s')"
  shows "r = Inr (Some True) \<longleftrightarrow> pool s \<noteq> None \<and> connects env"
    and "reconnectAttempts s' = (if r = Inr (Some True) \<and> \<not> isConnected s then 0 else reconnectAttempts s)"
    and "isConnected s' = (case r of Inl e \<Rightarrow> False | Inr v \<Rightarrow> v = Some True \<or> isConnected s)"
    and "connectionErrors s' =
           (case r of Inl e \<Rightarrow> connectionErrors s + 1
            | Inr v \<Rightarrow> if v = Some True \<and> \<not> isConnected s then 0 else connectionErrors s)"
  using assms
  by (auto simp: testConnection_defs connects_def split: option.splits sum.splits if_splits list.splits)

lemma getConnection_frame:
  assumes "getConnection got s = (r, s')"
  shows "Database.truncate s' = Database.truncate s" and "timeoutsSet s' = timeoutsSet s"
    and "timeoutsFired s' = timeoutsFired s" and "intervals s' = intervals s"
  using assms
  by (auto simp: getConnection_def log_defs Database.truncate_def split: option.splits if_splits)

lemma initializeSchema_frame:
  assumes "initializeSchema env s = (r, s')"
  shows "Database.truncate s' = Database.truncate s" and "timeoutsSet s' = timeoutsSet s"
    and "timeoutsFired s' = timeoutsFired s" and "intervals s' = intervals s"
  using assms
  by (auto simp: initializeSchema_def getConnection_def release_def log_defs Let_def Database.truncate_def
      split: option.splits if_splits)

lemma query_frame:
  assumes "query ex sql ps s = (r, s')"
  shows "Database.truncate s' = Database.truncate s" and "timeoutsSet s' = timeoutsSet s"
    and "timeoutsFired s' = timeoutsFired s" and "intervals s' = intervals s"
  using assms
  by (auto simp: query_def log_defs Database.truncate_def split: sum.splits if_splits)

lemma setupConnectionMonitoring_frame:
  "pool (setupConnectionMonitoring s) = pool s"
  "isConnected (setupConnectionMonitoring s) = isConnected s"
  "connectionErrors (setupConnectionMonitoring s) = connectionErrors s"
  "reconnectAttempts (setupConnectionMonitoring s) = reconnectAttempts s"
  "maxReconnectAttempts (setupConnectionMonitoring s) = maxReconnectAttempts s"
  "reconnectDelay (setupConnectionMonitoring s) = reconnectDelay s"
  "timeoutsSet (setupConnectionMonitoring s) = timeoutsSet s"
  "timeoutsFired (setupConnectionMonitoring s) = timeoutsFired s"
  by (simp_all add: setupConnectionMonitoring_def clearInterval_def Let_def split: option.splits)

lemma cleanup_frame:
  "pool (cleanup e s) = pool s"
  "isConnected (cleanup e s) = isConnected s"
  "connectionErrors (cleanup e s) = connectionErrors s"
  "reconnectAttempts (cleanup e s) = reconnectAttempts s"
  "maxReconnectAttempts (cleanup e s) = maxReconnectAttempts s"
  "reconnectDelay (cleanup e s) = reconnectDelay s"
  "timeoutsSet (cleanup e s) = timeoutsSet s"
  "timeoutsFired (cleanup e s) = timeoutsFired s"
  by (simp_all add: cleanup_def clearInterval_def log_defs Let_def split: option.splits)


lemma initialize_pool_frame:
  "isConnected (initialize_pool c s) = isConnected s"
  "connectionErrors (initialize_pool c s) = connectionErrors s"
  "reconnectAttempts (initialize_pool c s) = reconnectAttempts s"
  "maxReconnectAttempts (initialize_pool c s) = maxReconnectAttempts s"
  "reconnectDelay (initialize_pool c s) = reconnectDelay s"
  "timeoutsSet (initialize_pool c s) = timeoutsSet s"
  "timeoutsFired (initialize_pool c s) = timeoutsFired s"
  "pool (initialize_pool c s) = Some (createPool c)"
  by (simp_all add: initialize_pool_def setupConnectionMonitoring_frame log_defs Let_def)

lemma resolve_fs: "resolve ''fs'' = Inl (plain_error ''ReferenceError'' ''fs is not defined'')"
  by (simp add: resolve_def db_js_imports_def db_js_declarations_def db_js_globals_def)

lemma initializeSchema_try_throws:
  "initializeSchema_try env = Some (plain_error ''ReferenceError'' ''fs is not defined'')"
  by (simp add: initializeSchema_try_def resolve_fs)

lemma initializeSchema_throws:
  "fst (initializeSchema env s) =
     Inl (case (if pool s = None then Some null_pool_error else se_getConnection env) of
            Some e \<Rightarrow> e
          | None \<Rightarrow> plain_error ''ReferenceError'' ''fs is not defined'')"
  by (simp add: initializeSchema_def getConnection_def initializeSchema_try_throws Let_def
      split: option.splits)

lemma initialize_try_throws: "\<exists>e. fst (initialize_try env s) = Inl e"
proof (cases "ie_config env")
  case None
  then show ?thesis by (simp add: initialize_try_def)
next
  case (Some c)
  obtain r s1 where t: "testConnection True (ie_conn env) (initialize_pool c s) = (r, s1)"
    by force
  show ?thesis
  proof (cases r)
    case (Inl e)
    with Some t show ?thesis by (simp add: initialize_try_def)
  next
    case (Inr v)
    with Some t show ?thesis by (simp add: initialize_try_def initializeSchema_throws)
  qed
qed

lemma initialize_try_status:
  assumes "initialize_try env s = (r, s1)"
  shows "maxReconnectAttempts s1 = maxReconnectAttempts s"
    and "reconnectDelay s1 = reconnectDelay s"
    and "timeoutsSet s1 = timeoutsSet s"
    and "timeoutsFired s1 = timeoutsFired s"
    and "reconnectAttempts s1 =
           (if ie_config env \<noteq> None \<and> connects (ie_conn env) \<and> \<not> isConnected s then 0
            else reconnectAttempts s)"
proof -
  have "maxReconnectAttempts s1 = maxReconnectAttempts s \<and> reconnectDelay s1 = reconnectDelay s \<and>
        timeoutsSet s1 = timeoutsSet s \<and> timeoutsFired s1 = timeoutsFired s \<and>
        reconnectAttempts s1 =
           (if ie_config env \<noteq> None \<and> connects (ie_conn env) \<and> \<not> isConnected s then 0
            else reconnectAttempts s)"
  proof (cases "ie_config env")
    case None
    with assms show ?thesis by (simp add: initialize_try_def)
  next
    case (Some c)
    obtain rt s2 where t: "testConnection True (ie_conn env) (initialize_pool c s) = (rt, s2)"
      by force
    note fr = testConnection_frame [OF t] testConnection_status [OF t]
    show ?thesis
    proof (cases rt)
      case (Inl e)
      with Some t assms have "s1 = s2" by (simp add: initialize_try_def)
      with fr Inl Some show ?thesis by (simp add: initialize_pool_frame)
    next
      case (Inr v)
      with Some t assms have i: "initializeSchema (ie_schema env) s2 = (r, s1)"
        by (simp add: initialize_try_def)
      note fi = truncate_fields [OF initializeSchema_frame(1) [OF i]] initializeSchema_frame(2-4) [OF i]
      from fr fi Inr Some show ?thesis by (auto simp: initialize_pool_frame)
    qed
  qed
  then show "maxReconnectAttempts s1 = maxReconnectAttempts s"
    and "reconnectDelay s1 = reconnectDelay s"
    and "timeoutsSet s1 = timeoutsSet s"
    and "timeoutsFired s1 = timeoutsFired s"
    and "reconnectAttempts s1 =
           (if ie_config env \<noteq> None \<and> connects (ie_conn env) \<and> \<not> isConnected s then 0
            else reconnectAttempts s)"
    by simp_all
qed


lemma initialize_catches:
  "\<exists>e s1. initialize_try env s = (Inl e, s1) \<and> initialize env s = initialize_catch e (ie_random env) s1"
proof -
  obtain e where "fst (initialize_try env s) = Inl e"
    using initialize_try_throws by blast
  then have t: "initialize_try env s = (Inl e, snd (initialize_try env s))"
    by (metis prod.collapse)
  have "initialize env s = initialize_catch e (ie_random env) (snd (initialize_try env s))"
    by (subst initialize_def, subst t) simp
  with t show ?thesis by blast
qed

lemma initialize_status:
  "maxReconnectAttempts (initialize env s) = maxReconnectAttempts s"
  "reconnectDelay (initialize env s) = reconnectDelay s"
  "timeoutsFired (initialize env s) = timeoutsFired s"
  "\<not> isConnected (initialize env s)"
proof -
  obtain e s1 where t: "initialize_try env s = (Inl e, s1)"
    and i: "initialize env s = initialize_catch e (ie_random env) s1"
    using initialize_catches by blast
  note fr = initialize_try_status [OF t]
  show "maxReconnectAttempts (initialize env s) = maxReconnectAttempts s"
    "reconnectDelay (initialize env s) = reconnectDelay s"
    "timeoutsFired (initialize env s) = timeoutsFired s"
    "\<not> isConnected (initialize env s)"
    using fr by (simp_all add: i initialize_catch_def scheduleReconnect_frame log_defs)
qed

lemma initialize_attempts:
  "reconnectAttempts (initialize env s) =
     (if maxReconnectAttempts s \<le> attempts_before_catch env s then attempts_before_catch env s
      else attempts_before_catch env s + 1)"
  "timeoutsSet (initialize env s) =
     (if maxReconnectAttempts s \<le> attempts_before_catch env s then timeoutsSet s
      else timeoutsSet s @
             [backoff_delay (reconnectDelay s) (attempts_before_catch env s + 1) (ie_random env)])"
proof -
  obtain e s1 where t: "initialize_try env s = (Inl e, s1)"
    and i: "initialize env s = initialize_catch e (ie_random env) s1"
    using initialize_catches by blast
  note fr = initialize_try_status [OF t]
  show "reconnectAttempts (initialize env s) =
     (if maxReconnectAttempts s \<le> attempts_before_catch env s then attempts_before_catch env s
      else attempts_before_catch env s + 1)"
    using fr by (simp add: i initialize_catch_def scheduleReconnect_attempts log_defs attempts_before_catch_def)
  show "timeoutsSet (initialize env s) =
     (if maxReconnectAttempts s \<le> attempts_before_catch env s then timeoutsSet s
      else timeoutsSet s @
             [backoff_delay (reconnectDelay s) (attempts_before_catch env s + 1) (ie_random env)])"
    using fr by (simp add: i initialize_catch_def scheduleReconnect_timeouts log_defs attempts_before_catch_def)
qed

lemma healthCheckCallback_status:
  "maxReconnectAttempts (healthCheckCallback r env s) = maxReconnectAttempts s"
  "reconnectDelay (healthCheckCallback r env s) = reconnectDelay s"
  "timeoutsFired (healthCheckCallback r env s) = timeoutsFired s"
  "timeoutsSet (healthCheckCallback r env s) = timeoutsSet s"
  "reconnectAttempts (healthCheckCallback r env s) =
     (if pool s \<noteq> None \<and> connects env \<and> \<not> isConnected s then 0 else reconnectAttempts s)"
proof -
  obtain rt s1 where t: "testConnection False env s = (rt, s1)" by force
  note fr = testConnection_frame [OF t] testConnection_status [OF t]
  have h: "healthCheckCallback r env s =
             (case rt of Inl e \<Rightarrow> logger_error ''Database health check failed:'' (ErrorArg e) s1
              | Inr v \<Rightarrow> s1)"
    using fr(10) by (auto simp: healthCheckCallback_def t Let_def log_defs split: sum.splits)
  show "maxReconnectAttempts (healthCheckCallback r env s) = maxReconnectAttempts s"
    "reconnectDelay (healthCheckCallback r env s) = reconnectDelay s"
    "timeoutsFired (healthCheckCallback r env s) = timeoutsFired s"
    "timeoutsSet (healthCheckCallback r env s) = timeoutsSet s"
    "reconnectAttempts (healthCheckCallback r env s) =
     (if pool s \<noteq> None \<and> connects env \<and> \<not> isConnected s then 0 else reconnectAttempts s)"
    using fr by (auto simp: h log_defs split: sum.splits)
qed

subsection \<open>Steps and runs\<close>

lemma step_limits:
  "maxReconnectAttempts (step e s) = maxReconnectAttempts s"
  "reconnectDelay (step e s) = reconnectDelay s"
proof -
  have "maxReconnectAttempts (step e s) = maxReconnectAttempts s \<and>
        reconnectDelay (step e s) = reconnectDelay s"
  proof (cases e)
    case (CallTestConnection l env)
    obtain r s' where t: "testConnection l env s = (r, s')" by force
    from testConnection_frame [OF t] CallTestConnection t show ?thesis by simp
  next
    case (CallQuery ex sql ps)
    obtain r s' where t: "query ex sql ps s = (r, s')" by force
    from truncate_fields [OF query_frame(1) [OF t]] CallQuery t show ?thesis by simp
  next
    case (CallGetConnection got)
    obtain r s' where t: "getConnection got s = (r, s')" by force
    from truncate_fields [OF getConnection_frame(1) [OF t]] CallGetConnection t show ?thesis by simp
  next
    case (CallInitializeSchema env)
    obtain r s' where t: "initializeSchema env s = (r, s')" by force
    from truncate_fields [OF initializeSchema_frame(1) [OF t]] CallInitializeSchema t
    show ?thesis by simp
  qed (simp_all add: initialize_status healthCheckCallback_status scheduleReconnect_frame
        setupConnectionMonitoring_frame cleanup_frame)
  then show "maxReconnectAttempts (step e s) = maxReconnectAttempts s"
    and "reconnectDelay (step e s) = reconnectDelay s" by simp_all
qed

lemma step_bounded:
  assumes "reconnectAttempts s \<le> maxReconnectAttempts s"
  shows "reconnectAttempts (step e s) \<le> maxReconnectAttempts s"
proof (cases e)
  case (CallTestConnection l env)
  obtain r s' where t: "testConnection l env s = (r, s')" by force
  from testConnection_status [OF t] CallTestConnection t assms show ?thesis by simp
next
  case (CallQuery ex sql ps)
  obtain r s' where t: "query ex sql ps s = (r, s')" by force
  from truncate_fields [OF query_frame(1) [OF t]] CallQuery t assms show ?thesis by simp
next
  case (CallGetConnection got)
  obtain r s' where t: "getConnection got s = (r, s')" by force
  from truncate_fields [OF getConnection_frame(1) [OF t]] CallGetConnection t assms
  show ?thesis by simp
next
  case (CallInitializeSchema env)
  obtain r s' where t: "initializeSchema env s = (r, s')" by force
  from truncate_fields [OF initializeSchema_frame(1) [OF t]] CallInitializeSchema t assms
  show ?thesis by simp
qed (use assms in \<open>simp_all add: initialize_attempts attempts_before_catch_def
      healthCheckCallback_status scheduleReconnect_attempts setupConnectionMonitoring_frame
      cleanup_frame\<close>)

lemma step_gave_up:
  assumes "reconnectAttempts s = maxReconnectAttempts s" and "\<not> may_connect e"
  shows "reconnectAttempts (step e s) = reconnectAttempts s \<and> timeoutsSet (step e s) = timeoutsSet s"
proof (cases e)
  case (CallTestConnection l env)
  obtain r s' where t: "testConnection l env s = (r, s')" by force
  from testConnection_status [OF t] testConnection_frame [OF t] CallTestConnection t assms
  show ?thesis by simp
next
  case (CallQuery ex sql ps)
  obtain r s' where t: "query ex sql ps s = (r, s')" by force
  from truncate_fields [OF query_frame(1) [OF t]] query_frame [OF t] CallQuery t assms
  show ?thesis by simp
next
  case (CallGetConnection got)
  obtain r s' where t: "getConnection got s = (r, s')" by force
  from truncate_fields [OF getConnection_frame(1) [OF t]] getConnection_frame [OF t]
    CallGetConnection t assms
  show ?thesis by simp
next
  case (CallInitializeSchema env)
  obtain r s' where t: "initializeSchema env s = (r, s')" by force
  from truncate_fields [OF initializeSchema_frame(1) [OF t]] initializeSchema_frame [OF t]
    CallInitializeSchema t assms
  show ?thesis by simp
qed (use assms in \<open>auto simp add: initialize_attempts attempts_before_catch_def
      healthCheckCallback_status scheduleReconnect_attempts scheduleReconnect_timeouts
      setupConnectionMonitoring_frame cleanup_frame\<close>)

lemma run_limits:
  "maxReconnectAttempts (run evs s) = maxReconnectAttempts s"
  "reconnectDelay (run evs s) = reconnectDelay s"
  by (induction evs arbitrary: s) (simp_all add: step_limits)

lemma run_bounded:
  "reconnectAttempts s \<le> maxReconnectAttempts s \<Longrightarrow>
     reconnectAttempts (run evs s) \<le> maxReconnectAttempts s"
proof (induction evs arbitrary: s)
  case Nil
  then show ?case by simp
next
  case (Cons e evs)
  from Cons.prems have "reconnectAttempts (step e s) \<le> maxReconnectAttempts (step e s)"
    by (simp add: step_bounded step_limits)
  from Cons.IH [OF this] show ?case by (simp add: step_limits)
qed

lemma run_gave_up:
  "reconnectAttempts s = maxReconnectAttempts s \<Longrightarrow> \<forall>e \<in> set evs. \<not> may_connect e \<Longrightarrow>
     reconnectAttempts (run evs s) = reconnectAttempts s \<and> timeoutsSet (run evs s) = timeoutsSet s"
proof (induction evs arbitrary: s)
  case Nil
  then show ?case by simp
next
  case (Cons e evs)
  from Cons.prems have st: "reconnectAttempts (step e s) = reconnectAttempts s"
    "timeoutsSet (step e s) = timeoutsSet s"
    using step_gave_up [of s e] by simp_all
  with Cons.prems have "reconnectAttempts (step e s) = maxReconnectAttempts (step e s)"
    by (simp add: step_limits)
  from Cons.IH [OF this] Cons.prems(2) st show ?case by simp
qed

lemma new_Database_limits:
  "maxReconnectAttempts (new_Database env) = 10"
  "reconnectDelay (new_Database env) = 5000"
  "reconnectAttempts (new_Database env) \<le> 10"
  by (simp_all add: new_Database_def initialize_status initialize_attempts
      attempts_before_catch_def constructed_def)


lemma run_append: "run (xs @ ys) s = run ys (run xs s)"
  by (induction xs arbitrary: s) simp_all

lemma setupConnectionMonitoring_intervals: "intervals (setupConnectionMonitoring s) \<noteq> []"
  by (simp add: setupConnectionMonitoring_def Let_def)

lemma initialize_pool_intervals: "intervals (initialize_pool c s) \<noteq> []"
  by (simp add: initialize_pool_def setupConnectionMonitoring_intervals Let_def)

lemma initialize_pool_set:
  assumes "ie_config env = Some c"
  shows "pool (initialize env s) = Some (createPool c)" and "intervals (initialize env s) \<noteq> []"
proof -
  obtain e s1 where t: "initialize_try env s = (Inl e, s1)"
    and i: "initialize env s = initialize_catch e (ie_random env) s1"
    using initialize_catches by blast
  obtain rt s2 where c: "testConnection True (ie_conn env) (initialize_pool c s) = (rt, s2)"
    by force
  have p: "pool s2 = Some (createPool c)" and n: "intervals s2 \<noteq> []"
    using testConnection_frame [OF c]
    by (simp_all add: initialize_pool_frame initialize_pool_intervals)
  have "pool s1 = Some (createPool c) \<and> intervals s1 \<noteq> []"
  proof (cases rt)
    case (Inl e')
    with assms c t have "s1 = s2" by (simp add: initialize_try_def)
    with p n show ?thesis by simp
  next
    case (Inr v)
    with assms c t have s: "initializeSchema (ie_schema env) s2 = (Inl e, s1)"
      by (simp add: initialize_try_def)
    from truncate_fields [OF initializeSchema_frame(1) [OF s]] initializeSchema_frame [OF s] p n
    show ?thesis by simp
  qed
  then show "pool (initialize env s) = Some (createPool c)" and "intervals (initialize env s) \<noteq> []"
    by (simp_all add: i initialize_catch_def scheduleReconnect_frame log_defs)
qed

lemma fires_without_connection:
  assumes "\<not> connects (ie_conn env)"
  shows "reconnectAttempts s + k \<le> maxReconnectAttempts s \<Longrightarrow>
         timeoutsFired s < length (timeoutsSet s) \<Longrightarrow>
         reconnectAttempts (run (replicate k (TimeoutFires env)) s) = reconnectAttempts s + k \<and>
         timeoutsFired (run (replicate k (TimeoutFires env)) s) = timeoutsFired s + k \<and>
         length (timeoutsSet (run (replicate k (TimeoutFires env)) s)) = length (timeoutsSet s) + k"
proof (induction k arbitrary: s)
  case 0
  then show ?case by simp
next
  case (Suc k)
  let ?s = "step (TimeoutFires env) s"
  from Suc.prems assms have st: "reconnectAttempts ?s = reconnectAttempts s + 1"
    "timeoutsFired ?s = timeoutsFired s + 1"
    "length (timeoutsSet ?s) = length (timeoutsSet s) + 1"
    "maxReconnectAttempts ?s = maxReconnectAttempts s"
    by (simp_all add: initialize_attempts initialize_status attempts_before_catch_def)
  with Suc.prems have "reconnectAttempts ?s + k \<le> maxReconnectAttempts ?s"
    and "timeoutsFired ?s < length (timeoutsSet ?s)" by simp_all
  from Suc.IH [OF this] st show ?case by simp
qed

lemma server_down_refuses: "\<not> connects server_down" "\<not> connects (ie_conn while_down)"
  "ie_config while_down = Some quiz_config"
  by (simp_all add: connects_def server_down_def server_up_def while_down_def while_up_def)

lemma server_up_connects: "connects server_up"
  by (simp add: connects_def server_up_def)

lemma replicate_10: "replicate 10 x = replicate 9 x @ [x]"
proof -
  have "replicate (Suc 9) x = replicate 9 x @ [x]"
    by (simp only: replicate_Suc replicate_append_same)
  then show ?thesis by simp
qed

lemma ten_failures:
  "reconnectAttempts (run (replicate 10 (TimeoutFires while_down)) (new_Database while_down)) = 10"
  "timeoutsFired (run (replicate 10 (TimeoutFires while_down)) (new_Database while_down)) = 10"
  "length (timeoutsSet (run (replicate 10 (TimeoutFires while_down)) (new_Database while_down))) = 10"
  "maxReconnectAttempts (run (replicate 10 (TimeoutFires while_down)) (new_Database while_down)) = 10"
  "\<not> isConnected (run (replicate 10 (TimeoutFires while_down)) (new_Database while_down))"
  "pool (run (replicate 10 (TimeoutFires while_down)) (new_Database while_down)) \<noteq> None"
  "intervals (run (replicate 10 (TimeoutFires while_down)) (new_Database while_down)) \<noteq> []"
proof -
  let ?s0 = "new_Database while_down"
  let ?s9 = "run (replicate 9 (TimeoutFires while_down)) ?s0"
  have s0: "reconnectAttempts ?s0 = 1" "timeoutsFired ?s0 = 0" "length (timeoutsSet ?s0) = 1"
    "maxReconnectAttempts ?s0 = 10"
    by (simp_all add: new_Database_def initialize_attempts initialize_status
        attempts_before_catch_def server_down_refuses constructed_def)
  then have "reconnectAttempts ?s0 + 9 \<le> maxReconnectAttempts ?s0"
    and "timeoutsFired ?s0 < length (timeoutsSet ?s0)" by simp_all
  from fires_without_connection [OF server_down_refuses(2) this] s0
  have s9: "reconnectAttempts ?s9 = 10" "timeoutsFired ?s9 = 9" "length (timeoutsSet ?s9) = 10"
    by simp_all
  have m9: "maxReconnectAttempts ?s9 = 10" by (simp add: run_limits s0)
  have r: "run (replicate 10 (TimeoutFires while_down)) ?s0 = step (TimeoutFires while_down) ?s9"
    by (simp add: replicate_10 run_append)
  show "reconnectAttempts (run (replicate 10 (TimeoutFires while_down)) ?s0) = 10"
    "timeoutsFired (run (replicate 10 (TimeoutFires while_down)) ?s0) = 10"
    "length (timeoutsSet (run (replicate 10 (TimeoutFires while_down)) ?s0)) = 10"
    "maxReconnectAttempts (run (replicate 10 (TimeoutFires while_down)) ?s0) = 10"
    "\<not> isConnected (run (replicate 10 (TimeoutFires while_down)) ?s0)"
    "pool (run (replicate 10 (TimeoutFires while_down)) ?s0) \<noteq> None"
    "intervals (run (replicate 10 (TimeoutFires while_down)) ?s0) \<noteq> []"
    using s9 m9
    by (simp_all add: r initialize_attempts initialize_status attempts_before_catch_def
        server_down_refuses initialize_pool_set [OF server_down_refuses(3)])
qed

subsection \<open>Rounding\<close>

lemma tiny_ge: "1022 \<le> int tiny"
  by (simp add: tiny_def)

lemma scaled_power:
  assumes "- 1022 \<le> e"
  shows "(2::real) powi e * 2 ^ tiny = 2 ^ nat (e + int tiny)"
proof -
  from assms tiny_ge have n: "0 \<le> e + int tiny" by linarith
  have "(2::real) powi e * 2 ^ tiny = 2 powi e * 2 powi (int tiny)" by simp
  also have "\<dots> = 2 powi (e + int tiny)" by (simp add: power_int_add)
  also have "\<dots> = 2 ^ nat (e + int tiny)" using n by (simp add: power_int_def)
  finally show ?thesis .
qed

lemma binade_le:
  assumes "\<bar>x\<bar> < 2 powi (e + 1)" and "- 1022 \<le> e"
  shows "binade x \<le> e"
proof -
  let ?N = "\<lfloor>\<bar>x\<bar> * 2 ^ tiny\<rfloor>"
  from assms(2) tiny_ge have n: "0 \<le> e + int tiny + 1" by linarith
  have "\<bar>x\<bar> * 2 ^ tiny < 2 powi (e + 1) * 2 ^ tiny"
    using assms(1) by simp
  also have "\<dots> = 2 ^ nat (e + 1 + int tiny)"
    using assms(2) by (intro scaled_power) simp
  finally have "of_int ?N < (2::real) ^ nat (e + 1 + int tiny)"
    by (meson floor_less_iff le_less_trans of_int_floor_le)
  then have "?N < 2 ^ nat (e + 1 + int tiny)"
    by (metis of_int_less_numeral_power_cancel_iff)
  then have "bitlen ?N \<le> e + 1 + int tiny"
    using n by (simp add: bitlen_le_iff_power add.commute add.left_commute)
  with assms(2) show ?thesis by (simp add: binade_def)
qed

lemma binade_ge:
  assumes "2 powi e \<le> \<bar>x\<bar>"
  shows "e \<le> binade x"
proof (cases "- 1022 \<le> e")
  case False
  then show ?thesis by (simp add: binade_def)
next
  case True
  let ?N = "\<lfloor>\<bar>x\<bar> * 2 ^ tiny\<rfloor>"
  have "(2::real) ^ nat (e + int tiny) = 2 powi e * 2 ^ tiny"
    using True by (simp add: scaled_power)
  also have "\<dots> \<le> \<bar>x\<bar> * 2 ^ tiny" using assms by simp
  finally have "of_int (2 ^ nat (e + int tiny)) \<le> \<bar>x\<bar> * 2 ^ tiny" by simp
  then have "2 ^ nat (e + int tiny) \<le> ?N" by (simp only: le_floor_iff)
  moreover from True tiny_ge have "nat (e + int tiny + 1) - 1 = nat (e + int tiny)" by simp
  ultimately have "e + int tiny + 1 \<le> bitlen ?N"
    by (simp add: bitlen_ge_iff_power)
  then show ?thesis by (simp add: binade_def)
qed

lemma binade_eq:
  assumes "2 powi e \<le> \<bar>x\<bar>" and "\<bar>x\<bar> < 2 powi (e + 1)" and "- 1022 \<le> e"
  shows "binade x = e"
  using binade_le [OF assms(2,3)] binade_ge [OF assms(1)] by simp

lemma binade_min: "- 1022 \<le> binade x"
  by (simp add: binade_def)

lemma round_even_error: "\<bar>of_int (round_even y) - y\<bar> \<le> 1 / 2"
  unfolding round_even_def Let_def by (auto simp: abs_if) linarith+

lemma round_even_of_int: "round_even (of_int m) = m"
  by (simp add: round_even_def)

lemma ulp_pos: "0 < ulp x"
  by (simp add: ulp_def)

lemma fl_error_ulp: "\<bar>fl x - x\<bar> \<le> ulp x / 2"
proof -
  have "fl x - x = (of_int (round_even (x / ulp x)) - x / ulp x) * ulp x"
    using ulp_pos [of x] by (simp add: fl_def field_simps)
  then have "\<bar>fl x - x\<bar> = \<bar>of_int (round_even (x / ulp x)) - x / ulp x\<bar> * ulp x"
    using ulp_pos [of x] by (simp add: abs_mult)
  also have "\<dots> \<le> (1 / 2) * ulp x"
    using round_even_error [of "x / ulp x"] ulp_pos [of x] by (intro mult_right_mono) simp_all
  finally show ?thesis by simp
qed

lemma fl_error:
  assumes "\<bar>x\<bar> < 2 powi (e + 1)" and "- 1022 \<le> e"
  shows "\<bar>fl x - x\<bar> \<le> 2 powi (e - 53)"
proof -
  from binade_le [OF assms] have "ulp x \<le> 2 powi (e - 52)"
    by (simp add: ulp_def power_int_increasing)
  then have "ulp x / 2 \<le> 2 powi (e - 52) / 2" by simp
  also have "\<dots> = 2 powi (e - 53)" by (simp add: power_int_diff)
  finally show ?thesis using fl_error_ulp [of x] by linarith
qed

lemma fl_representable:
  assumes "x = of_int m * 2 powi q" and "\<bar>m\<bar> < 2 ^ 53" and "- 1074 \<le> q"
  shows "fl x = x"
proof -
  have b: "binade x - 52 \<le> q"
  proof (cases "- 1022 \<le> 52 + q")
    case True
    have "\<bar>x\<bar> = of_int \<bar>m\<bar> * 2 powi q" by (simp add: assms(1) abs_mult)
    also have "\<dots> < 2 ^ 53 * 2 powi q"
      using assms(2) by (intro mult_strict_right_mono) (simp_all add: of_int_less_numeral_power_cancel_iff)
    also have "\<dots> = 2 powi (52 + q + 1)" by (simp add: power_int_add)
    finally have "\<bar>x\<bar> < 2 powi (52 + q + 1)" .
    from binade_le [OF this True] show ?thesis by simp
  next
    case False
    have "\<bar>x\<bar> = of_int \<bar>m\<bar> * 2 powi q" by (simp add: assms(1) abs_mult)
    also have "\<dots> \<le> 2 ^ 53 * 2 powi q"
      using assms(2) by (intro mult_right_mono) simp_all
    also have "\<dots> = 2 powi (53 + q)" by (simp add: power_int_add)
    also have "\<dots> < 2 powi (- 1022 + 1)"
      using False by (intro power_int_strict_increasing) simp_all
    finally have "binade x \<le> - 1022" by (intro binade_le) simp_all
    with assms(3) show ?thesis by simp
  qed
  define k where "k = nat (q - (binade x - 52))"
  define u where "u = ulp x"
  have u: "0 < u" by (simp add: u_def ulp_pos)
  have "(2::real) powi q = 2 powi (int k + (binade x - 52))" using b by (simp add: k_def)
  also have "\<dots> = 2 powi (int k) * 2 powi (binade x - 52)" by (rule power_int_add) simp
  finally have q: "2 powi q = 2 ^ k * u" by (simp add: u_def ulp_def)
  have x: "x = of_int (m * 2 ^ k) * u" by (simp add: assms(1) q)
  have "x / u = of_int (m * 2 ^ k)" using u by (subst x) simp
  then have "round_even (x / u) = m * 2 ^ k" by (simp only: round_even_of_int)
  then have "fl x = of_int (m * 2 ^ k) * u" by (simp add: fl_def u_def)
  with x show ?thesis by simp
qed

lemma fl_eval:
  assumes "2 powi e \<le> \<bar>x\<bar>" and "\<bar>x\<bar> < 2 powi (e + 1)" and "- 1022 \<le> e"
  shows "fl x = of_int (round_even (x / 2 powi (e - 52))) * 2 powi (e - 52)"
  by (simp add: fl_def ulp_def binade_eq [OF assms])

lemma fl_two_tenths: "fl (2 / 10) = 3602879701896397 / 2 ^ 54"
  by (subst fl_eval [of "- 3"]) (simp_all add: power_int_minus round_even_def field_simps)


lemma pow2_neg: "(2::real) powi (- int k) = 1 / 2 ^ k"
  by (simp add: power_int_minus field_simps)

lemma fl_jitter_half: "fl (1 + fl (1 / 2 * fl (2 / 10))) = 4953959590107546 / 2 ^ 52"
proof -
  have a: "(1 / 2 :: real) * (3602879701896397 / 2 ^ 54) = 3602879701896397 / 2 ^ 55"
    by simp
  have b: "fl (3602879701896397 / 2 ^ 55) = 3602879701896397 / 2 ^ 55"
    by (rule fl_representable [of _ 3602879701896397 "- 55"])
       (simp_all add: power_int_minus field_simps)
  have c: "(1::real) + 3602879701896397 / 2 ^ 55 = 39631676720860365 / 2 ^ 55"
    by simp
  have d: "fl (39631676720860365 / 2 ^ 55) = 4953959590107546 / 2 ^ 52"
    by (subst fl_eval [of 0]) (simp_all add: power_int_minus round_even_def field_simps)
  show ?thesis by (simp only: fl_two_tenths a b c d)
qed

lemma Math_pow_exact:
  assumes "k \<le> 9"
  shows "Math_pow (3 / 2) k = (3 / 2) ^ k"
  unfolding Math_pow_def
proof (rule fl_representable [of _ "3 ^ k" "- int k"])
  show "(3 / 2 :: real) ^ k = of_int (3 ^ k) * 2 powi (- int k)"
    by (simp add: power_divide pow2_neg)
  have "(3::int) ^ k \<le> 3 ^ 9" using assms by (intro power_increasing) simp_all
  then show "\<bar>3 ^ k :: int\<bar> < 2 ^ 53" by simp
  show "- 1074 \<le> - int k" using assms by simp
qed

lemma base_exact:
  assumes "k \<le> 9"
  shows "fl (5000 * Math_pow (3 / 2) k) = 5000 * (3 / 2) ^ k"
  unfolding Math_pow_exact [OF assms]
proof (rule fl_representable [of _ "5000 * 3 ^ k" "- int k"])
  show "5000 * (3 / 2 :: real) ^ k = of_int (5000 * 3 ^ k) * 2 powi (- int k)"
    by (simp add: power_divide pow2_neg)
  have "(3::int) ^ k \<le> 3 ^ 9" using assms by (intro power_increasing) simp_all
  then show "\<bar>5000 * 3 ^ k :: int\<bar> < 2 ^ 53" by simp
  show "- 1074 \<le> - int k" using assms by simp
qed

lemma backoff_first: "backoff_delay 5000 1 (1 / 2) = 5500"
proof -
  have a: "fl (5000 * Math_pow (3 / 2) (1 - 1)) = 5000"
    using base_exact [of 0] by simp
  have b: "(5000::real) * (4953959590107546 / 2 ^ 52) = 24769797950537730000 / 2 ^ 52"
    by simp
  have c: "fl (24769797950537730000 / 2 ^ 52) = 5500"
    by (subst fl_eval [of 12]) (simp_all add: power_int_minus round_even_def field_simps)
  have d: "min 30000 (5500::real) = 5500" by simp
  show ?thesis by (simp only: backoff_delay_def a fl_jitter_half b c d)
qed

lemma backoff_third: "backoff_delay 5000 3 (1 / 2) = 12375 + 1 / 2 ^ 39"
proof -
  have a: "fl (5000 * Math_pow (3 / 2) (3 - 1)) = 11250"
    using base_exact [of 2] by (simp add: power_divide)
  have b: "(11250::real) * (4953959590107546 / 2 ^ 52) = 55732045388709892500 / 2 ^ 52"
    by simp
  have c: "fl (55732045388709892500 / 2 ^ 52) = 12375 + 1 / 2 ^ 39"
    by (subst fl_eval [of 13]) (simp_all add: power_int_minus round_even_def field_simps)
  have d: "min 30000 (12375 + 1 / 2 ^ 39 :: real) = 12375 + 1 / 2 ^ 39" by simp
  show ?thesis by (simp only: backoff_delay_def a fl_jitter_half b c d)
qed


lemma abs_chain:
  "\<bar>a - b\<bar> \<le> x \<Longrightarrow> \<bar>b - c\<bar> \<le> y \<Longrightarrow> x + y \<le> z \<Longrightarrow> \<bar>a - c\<bar> \<le> z" for a b c :: real
  by linarith

lemma jitter_error:
  assumes "0 \<le> r" and "r \<le> 1"
  shows "\<bar>fl (1 + fl (r * fl (2 / 10))) - (1 + r * (2 / 10))\<bar> \<le> 1 / 2 ^ 52"
    and "\<bar>fl (1 + fl (r * fl (2 / 10)))\<bar> \<le> 5 / 4"
proof -
  define c :: real where "c = 3602879701896397 / 2 ^ 54"
  have c: "fl (2 / 10) = c" by (simp only: fl_two_tenths c_def)
  have c0: "0 \<le> c" and c4: "c < 1 / 4" and cd: "\<bar>c - 2 / 10\<bar> \<le> 1 / 2 ^ 56"
    by (simp_all add: c_def)
  have x1: "0 \<le> r * c" "r * c \<le> c"
    using assms c0 by (simp_all add: mult_left_le_one_le)
  then have "\<bar>r * c\<bar> < 2 powi (- 3 + 1)"
    using c4 by (simp add: power_int_minus)
  from fl_error [OF this] have e1: "\<bar>fl (r * c) - r * c\<bar> \<le> 1 / 2 ^ 56"
    by (simp add: power_int_minus field_simps)
  have "r * c - r * (2 / 10) = r * (c - 2 / 10)" by (simp only: right_diff_distrib)
  then have "\<bar>r * c - r * (2 / 10)\<bar> = r * \<bar>c - 2 / 10\<bar>"
    using assms(1) by (simp only: abs_mult abs_of_nonneg)
  also have "\<dots> \<le> 1 * (1 / 2 ^ 56)"
    using assms cd by (intro mult_mono) simp_all
  finally have d1: "\<bar>r * c - r * (2 / 10)\<bar> \<le> 1 / 2 ^ 56" by simp
  from e1 d1 have t: "\<bar>fl (r * c) - r * (2 / 10)\<bar> \<le> 1 / 2 ^ 55"
    by (rule abs_chain) simp
  have r2: "0 \<le> r * (2 / 10)" "r * (2 / 10) \<le> 2 / 10" using assms by simp_all
  then have r3: "\<bar>r * (2 / 10) - 0\<bar> \<le> 2 / 10" by simp
  from t r3 have "\<bar>fl (r * c) - 0\<bar> \<le> 1 / 4" by (rule abs_chain) simp
  then have "\<bar>1 + fl (r * c)\<bar> < 2" by linarith
  then have "\<bar>1 + fl (r * c)\<bar> < 2 powi (0 + 1)" by simp
  from fl_error [OF this] have e2: "\<bar>fl (1 + fl (r * c)) - (1 + fl (r * c))\<bar> \<le> 1 / 2 ^ 53"
    by (simp add: power_int_minus field_simps)
  have "\<bar>(1 + fl (r * c)) - (1 + r * (2 / 10))\<bar> \<le> 1 / 2 ^ 55" using t by simp
  with e2 have j: "\<bar>fl (1 + fl (r * c)) - (1 + r * (2 / 10))\<bar> \<le> 1 / 2 ^ 52"
    by (rule abs_chain) simp
  from r2 have "\<bar>(1 + r * (2 / 10)) - 0\<bar> \<le> 12 / 10" by simp
  with j have "\<bar>fl (1 + fl (r * c)) - 0\<bar> \<le> 5 / 4" by (rule abs_chain) simp
  then have b: "\<bar>fl (1 + fl (r * c))\<bar> \<le> 5 / 4" by simp
  from j b show "\<bar>fl (1 + fl (r * fl (2 / 10))) - (1 + r * (2 / 10))\<bar> \<le> 1 / 2 ^ 52"
    and "\<bar>fl (1 + fl (r * fl (2 / 10)))\<bar> \<le> 5 / 4"
    by (simp_all only: c)
qed

lemma min_error: "\<bar>min a b - min a c\<bar> \<le> \<bar>b - c\<bar>" for a b c :: real
  by (simp add: min_def abs_if)

lemma delay_error:
  assumes "1 \<le> n" and "n \<le> 10" and "0 \<le> r" and "r \<le> 1"
  shows "\<bar>backoff_delay 5000 n r - min 30000 (5000 * (3 / 2) ^ (n - 1) * (1 + r * (2 / 10)))\<bar>
           \<le> 1 / 2 ^ 33"
proof -
  define P :: real where "P = 5000 * (3 / 2) ^ (n - 1)"
  define u where "u = fl (1 + fl (r * fl (2 / 10)))"
  define j where "j = 1 + r * (2 / 10)"
  from assms have k: "n - 1 \<le> 9" by simp
  have base: "fl (5000 * Math_pow (3 / 2) (n - 1)) = P"
    unfolding P_def by (rule base_exact [OF k])
  have "(3 / 2 :: real) ^ (n - 1) \<le> (3 / 2) ^ 9"
    using k by (intro power_increasing) simp_all
  also have "\<dots> \<le> 2 ^ 18 / 5000" by (simp add: power_divide)
  finally have "5000 * (3 / 2 :: real) ^ (n - 1) \<le> 2 ^ 18" by (simp add: field_simps)
  then have P: "0 \<le> P" "P \<le> 2 ^ 18" by (simp_all add: P_def)
  have uj: "\<bar>u - j\<bar> \<le> 1 / 2 ^ 52" and u: "\<bar>u\<bar> \<le> 5 / 4"
    unfolding u_def j_def using jitter_error [OF assms(3,4)] by simp_all
  have "\<bar>P * u\<bar> = P * \<bar>u\<bar>" using P(1) by (simp add: abs_mult)
  also have "\<dots> \<le> 2 ^ 18 * (5 / 4)" using P u by (intro mult_mono) simp_all
  also have "\<dots> < 2 powi (18 + 1)" by simp
  finally have "\<bar>P * u\<bar> < 2 powi (18 + 1)" .
  from fl_error [OF this] have e: "\<bar>fl (P * u) - P * u\<bar> \<le> 1 / 2 ^ 35"
    by (simp add: power_int_minus field_simps)
  have "P * u - P * j = P * (u - j)" by (simp only: right_diff_distrib)
  then have "\<bar>P * u - P * j\<bar> = P * \<bar>u - j\<bar>"
    using P(1) by (simp only: abs_mult abs_of_nonneg)
  also have "\<dots> \<le> 2 ^ 18 * (1 / 2 ^ 52)" using P uj by (intro mult_mono) simp_all
  finally have d: "\<bar>P * u - P * j\<bar> \<le> 1 / 2 ^ 34" by simp
  from e d have "\<bar>fl (P * u) - P * j\<bar> \<le> 1 / 2 ^ 33"
    by (rule abs_chain) simp
  with min_error [of 30000 "fl (P * u)" "P * j"]
  have "\<bar>min 30000 (fl (P * u)) - min 30000 (P * j)\<bar> \<le> 1 / 2 ^ 33" by linarith
  then show ?thesis
    by (simp only: backoff_delay_def base flip: u_def P_def j_def)
qed

subsection \<open>The backoff delay\<close>

text \<open>
  C1, as the specification states it, makes the delay equal to
  \<open>min(30000, 5000 * 1.5^(n-1) * j)\<close>. For the third attempt with
  \<open>Math.random() = 0.5\<close>, that is 12375 (\<open>j\<close> is 1.1); the doubles give the timer
  \<open>12375 + 2^-39\<close>, which prints as 12375.000000000002: 1.1 is not a double, and the
  product is rounded once more.
\<close>

theorem C1_counterexample:
  "timeoutsSet (scheduleReconnect (1 / 2) (constructed\<lparr>reconnectAttempts := 2\<rparr>)) =
     [12375 + 1 / 2 ^ 39] \<and>
   min 30000 (5000 * (3 / 2) ^ (3 - 1) * (1 + (1 / 2) * (2 / 10))) = (12375 :: real) \<and>
   timeoutsSet (scheduleReconnect (1 / 2) (constructed\<lparr>reconnectAttempts := 2\<rparr>)) \<noteq>
     [min 30000 (5000 * (3 / 2) ^ (3 - 1) * (1 + (1 / 2) * (2 / 10)))]"
proof -
  have d: "timeoutsSet (scheduleReconnect (1 / 2) (constructed\<lparr>reconnectAttempts := 2\<rparr>)) =
             [backoff_delay 5000 3 (1 / 2)]"
    by (simp add: scheduleReconnect_timeouts constructed_def)
  have m: "min 30000 (5000 * (3 / 2) ^ (3 - 1) * (1 + (1 / 2) * (2 / 10))) = (12375 :: real)"
    by (simp add: power_divide)
  show ?thesis unfolding d m backoff_third by simp
qed

text \<open>
  C1, amended. For the attempt number \<open>n\<close> from 1 to 10 and the jitter factor
  \<open>j = 1 + Math.random() * 0.2\<close> between 1 and 1.2, \<open>scheduleReconnect\<close> counts the
  attempt and sets one timer whose delay is \<open>min(30000, 5000 * 1.5^(n-1) * j)\<close> as the
  doubles compute it, which is within \<open>2^-33\<close> milliseconds of the exact value; when that
  timer fires, \<open>initialize\<close> runs.
\<close>

theorem C1_reconnect_delay:
  assumes "1 \<le> n" and "n \<le> 10"
    and "j = 1 + r * (2 / 10)" and "1 \<le> j" and "j \<le> 12 / 10"
    and "reconnectAttempts s = n - 1"
    and "maxReconnectAttempts s = 10" and "reconnectDelay s = 5000"
    and "timeoutsFired s \<le> length (timeoutsSet s)"
  shows "reconnectAttempts (scheduleReconnect r s) = n \<and>
         timeoutsSet (scheduleReconnect r s) = timeoutsSet s @ [backoff_delay 5000 n r] \<and>
         \<bar>backoff_delay 5000 n r - min 30000 (5000 * (3 / 2) ^ (n - 1) * j)\<bar> \<le> 1 / 2 ^ 33 \<and>
         step (TimeoutFires env) (scheduleReconnect r s) =
           initialize env ((scheduleReconnect r s)\<lparr>timeoutsFired := timeoutsFired s + 1\<rparr>)"
proof -
  from assms(3-5) have r: "0 \<le> r" "r \<le> 1" by simp_all
  from delay_error [OF assms(1,2) r]
  have "\<bar>backoff_delay 5000 n r - min 30000 (5000 * (3 / 2) ^ (n - 1) * j)\<bar> \<le> 1 / 2 ^ 33"
    by (simp only: assms(3))
  with assms show ?thesis
    by (simp add: scheduleReconnect_attempts scheduleReconnect_timeouts scheduleReconnect_frame)
qed

text \<open>
  The amended C1 for the third attempt with \<open>Math.random() = 0.5\<close>: the timer is set to
  \<open>12375 + 2^-39\<close>, within \<open>2^-33\<close> of 5000 * 2.25 * 1.1 = 12375.
\<close>

theorem C1_reconnect_delay_witness:
  "(1::nat) \<le> 3 \<and> (3::nat) \<le> 10 \<and> (11 / 10 :: real) = 1 + (1 / 2) * (2 / 10) \<and>
   (1::real) \<le> 11 / 10 \<and> (11 / 10 :: real) \<le> 12 / 10 \<and>
   reconnectAttempts (constructed\<lparr>reconnectAttempts := 2\<rparr>) = 3 - 1 \<and>
   maxReconnectAttempts (constructed\<lparr>reconnectAttempts := 2\<rparr>) = 10 \<and>
   reconnectDelay (constructed\<lparr>reconnectAttempts := 2\<rparr>) = 5000 \<and>
   timeoutsFired (constructed\<lparr>reconnectAttempts := 2\<rparr>)
     \<le> length (timeoutsSet (constructed\<lparr>reconnectAttempts := 2\<rparr>)) \<and>
   reconnectAttempts (scheduleReconnect (1 / 2) (constructed\<lparr>reconnectAttempts := 2\<rparr>)) = 3 \<and>
   timeoutsSet (scheduleReconnect (1 / 2) (constructed\<lparr>reconnectAttempts := 2\<rparr>)) =
     [12375 + 1 / 2 ^ 39] \<and>
   \<bar>(12375 + 1 / 2 ^ 39) - min 30000 (5000 * (3 / 2) ^ (3 - 1) * (11 / 10))\<bar> \<le> (1 / 2 ^ 33 :: real) \<and>
   step (TimeoutFires while_down) (scheduleReconnect (1 / 2) (constructed\<lparr>reconnectAttempts := 2\<rparr>)) =
     initialize while_down
       ((scheduleReconnect (1 / 2) (constructed\<lparr>reconnectAttempts := 2\<rparr>))\<lparr>timeoutsFired := 1\<rparr>)"
proof -
  let ?s = "constructed\<lparr>reconnectAttempts := 2\<rparr>"
  have h: "reconnectAttempts ?s = 3 - 1" "maxReconnectAttempts ?s = 10" "reconnectDelay ?s = 5000"
    "timeoutsFired ?s \<le> length (timeoutsSet ?s)"
    and e: "timeoutsSet ?s = []" "timeoutsFired ?s = 0"
    by (simp_all add: constructed_def)
  have j: "(11 / 10 :: real) = 1 + (1 / 2) * (2 / 10)" "(1::real) \<le> 11 / 10"
    "(11 / 10 :: real) \<le> 12 / 10" by simp_all
  have n: "(1::nat) \<le> 3" "(3::nat) \<le> 10" by simp_all
  have z: "(0::nat) + 1 = 1" by simp
  from C1_reconnect_delay [of 3 "11 / 10" "1 / 2" ?s while_down, OF n j h]
  have "reconnectAttempts (scheduleReconnect (1 / 2) ?s) = 3 \<and>
        timeoutsSet (scheduleReconnect (1 / 2) ?s) = [12375 + 1 / 2 ^ 39] \<and>
        \<bar>(12375 + 1 / 2 ^ 39) - min 30000 (5000 * (3 / 2) ^ (3 - 1) * (11 / 10))\<bar>
          \<le> (1 / 2 ^ 33 :: real) \<and>
        step (TimeoutFires while_down) (scheduleReconnect (1 / 2) ?s) =
          initialize while_down ((scheduleReconnect (1 / 2) ?s)\<lparr>timeoutsFired := 1\<rparr>)"
    by (simp only: backoff_third e z append_Nil)
  with n j h show ?thesis by blast
qed

subsection \<open>The cap on reconnection attempts\<close>

text \<open>
  C2, as the specification states it, ends with: once ten consecutive reconnection
  attempts have failed, no further reconnection is ever scheduled. The run below refutes
  that. The server refuses every connection: the constructor's \<open>initialize\<close> fails and
  sets the first timer, and each of the ten timers that fire runs an \<open>initialize\<close> that
  fails too. After the tenth the counter is 10, ten timers have been set and all ten have
  fired: the instance has given up. Then the server comes back, the health check passes
  (which resets the counter), and a later call of \<open>initialize\<close> that fails sets an
  eleventh timer.
\<close>

theorem C2_counterexample:
  "reconnectAttempts (run (replicate 10 (TimeoutFires while_down)) (new_Database while_down)) = 10 \<and>
   timeoutsFired (run (replicate 10 (TimeoutFires while_down)) (new_Database while_down)) = 10 \<and>
   length (timeoutsSet (run (replicate 10 (TimeoutFires while_down)) (new_Database while_down))) = 10 \<and>
   length (timeoutsSet
     (run (replicate 10 (TimeoutFires while_down)
             @ [IntervalFires (1 / 2) server_up, CallInitialize while_down])
        (new_Database while_down))) = 11"
  by (simp add: run_append ten_failures healthCheckCallback_status initialize_attempts
      attempts_before_catch_def server_down_refuses server_up_connects)


text \<open>
  C2, amended. \<open>scheduleReconnect\<close> neither counts nor sets a timer when the counter has
  reached \<open>maxReconnectAttempts\<close>; in every state that the constructor and any sequence
  of timer callbacks and method calls lead to, \<open>maxReconnectAttempts\<close> is 10 and the
  counter is at most 10; and from a state whose counter is 10, no timer is set and the
  counter stays 10 for as long as no connection test passes.
\<close>

theorem C2_reconnect_cap:
  "(maxReconnectAttempts s \<le> reconnectAttempts s \<longrightarrow>
      reconnectAttempts (scheduleReconnect r s) = reconnectAttempts s \<and>
      timeoutsSet (scheduleReconnect r s) = timeoutsSet s) \<and>
   maxReconnectAttempts (run evs (new_Database env)) = 10 \<and>
   reconnectAttempts (run evs (new_Database env)) \<le> 10 \<and>
   (maxReconnectAttempts s' = 10 \<and> reconnectAttempts s' = 10 \<and> (\<forall>e \<in> set evs'. \<not> may_connect e) \<longrightarrow>
      reconnectAttempts (run evs' s') = 10 \<and> timeoutsSet (run evs' s') = timeoutsSet s')"
proof -
  have a: "maxReconnectAttempts s \<le> reconnectAttempts s \<longrightarrow>
      reconnectAttempts (scheduleReconnect r s) = reconnectAttempts s \<and>
      timeoutsSet (scheduleReconnect r s) = timeoutsSet s"
    by (simp add: scheduleReconnect_attempts scheduleReconnect_timeouts)
  have b: "maxReconnectAttempts (run evs (new_Database env)) = 10"
    by (simp add: run_limits new_Database_limits)
  have "reconnectAttempts (run evs (new_Database env)) \<le> maxReconnectAttempts (new_Database env)"
    by (rule run_bounded) (simp add: new_Database_limits)
  then have c: "reconnectAttempts (run evs (new_Database env)) \<le> 10"
    by (simp add: new_Database_limits)
  have d: "maxReconnectAttempts s' = 10 \<and> reconnectAttempts s' = 10 \<and> (\<forall>e \<in> set evs'. \<not> may_connect e) \<longrightarrow>
      reconnectAttempts (run evs' s') = 10 \<and> timeoutsSet (run evs' s') = timeoutsSet s'"
    using run_gave_up [of s' evs'] by simp
  from a b c d show ?thesis by blast
qed


text \<open>
  The amended C2 at concrete inputs: a counter already at 10, a run from the constructor,
  and a run of three events, none of which can connect, from a counter at 10.
\<close>

theorem C2_reconnect_cap_witness:
  "reconnectAttempts (scheduleReconnect (1 / 2) (constructed\<lparr>reconnectAttempts := 10\<rparr>)) = 10 \<and>
   timeoutsSet (scheduleReconnect (1 / 2) (constructed\<lparr>reconnectAttempts := 10\<rparr>)) = [] \<and>
   reconnectAttempts (run [TimeoutFires while_up, IntervalFires (1 / 2) server_up] (new_Database while_down)) \<le> 10 \<and>
   reconnectAttempts
     (run [IntervalFires (1 / 2) server_down, CallInitialize while_down, CallScheduleReconnect (1 / 2)]
        (constructed\<lparr>reconnectAttempts := 10\<rparr>)) = 10 \<and>
   timeoutsSet
     (run [IntervalFires (1 / 2) server_down, CallInitialize while_down, CallScheduleReconnect (1 / 2)]
        (constructed\<lparr>reconnectAttempts := 10\<rparr>)) = []"
  using C2_reconnect_cap [of "constructed\<lparr>reconnectAttempts := 10\<rparr>" "1 / 2"
      "[TimeoutFires while_up, IntervalFires (1 / 2) server_up]" while_down
      "constructed\<lparr>reconnectAttempts := 10\<rparr>"
      "[IntervalFires (1 / 2) server_down, CallInitialize while_down, CallScheduleReconnect (1 / 2)]"]
  by (simp add: constructed_def server_down_refuses)

subsection \<open>initialize and initializeSchema\<close>

text \<open>
  C3. \<open>fs\<close> is neither imported nor declared in db.js, so \<open>initializeSchema\<close> throws on
  every call and in every state: the error of \<open>getConnection\<close> when no connection is
  handed out, the ReferenceError otherwise. Hence the \<open>try\<close> block of \<open>initialize\<close>
  throws on every call, \<open>initialize\<close> is its \<open>catch\<close> block (log, \<open>isConnected = false\<close>,
  \<open>scheduleReconnect\<close>), and \<open>isConnected\<close> is false when it returns.
\<close>

theorem C3_initialize_never_succeeds:
  "''fs'' \<notin> set (db_js_imports @ db_js_declarations @ db_js_globals) \<and>
   fst (initializeSchema senv s) =
     Inl (case (if pool s = None then Some null_pool_error else se_getConnection senv) of
            Some e \<Rightarrow> e
          | None \<Rightarrow> plain_error ''ReferenceError'' ''fs is not defined'') \<and>
   (\<exists>e s1. initialize_try env s = (Inl e, s1) \<and>
            initialize env s =
              scheduleReconnect (ie_random env)
                ((logger_error ''Failed to initialize database connection pool:'' (ErrorArg e) s1)
                   \<lparr>isConnected := False\<rparr>)) \<and>
   \<not> isConnected (initialize env s)"
proof -
  have a: "''fs'' \<notin> set (db_js_imports @ db_js_declarations @ db_js_globals)"
    by (simp add: db_js_imports_def db_js_declarations_def db_js_globals_def)
  obtain e s1 where "initialize_try env s = (Inl e, s1)"
    and "initialize env s = initialize_catch e (ie_random env) s1"
    using initialize_catches by blast
  then have b: "\<exists>e s1. initialize_try env s = (Inl e, s1) \<and>
            initialize env s =
              scheduleReconnect (ie_random env)
                ((logger_error ''Failed to initialize database connection pool:'' (ErrorArg e) s1)
                   \<lparr>isConnected := False\<rparr>)"
    by (auto simp: initialize_catch_def)
  from a b show ?thesis by (simp add: initializeSchema_throws initialize_status)
qed


lemma fires_with_connection:
  assumes "ie_config env \<noteq> None" and "connects (ie_conn env)"
  shows "0 < maxReconnectAttempts s \<Longrightarrow> \<not> isConnected s \<Longrightarrow>
         timeoutsFired s < length (timeoutsSet s) \<Longrightarrow>
         timeoutsFired (run (replicate (Suc k) (TimeoutFires env)) s) = timeoutsFired s + Suc k \<and>
         length (timeoutsSet (run (replicate (Suc k) (TimeoutFires env)) s)) =
           length (timeoutsSet s) + Suc k \<and>
         reconnectAttempts (run (replicate (Suc k) (TimeoutFires env)) s) = 1"
proof (induction k arbitrary: s)
  case 0
  with assms show ?case
    by (simp add: initialize_attempts initialize_status attempts_before_catch_def)
next
  case (Suc k)
  let ?s = "step (TimeoutFires env) s"
  from Suc.prems assms have st: "timeoutsFired ?s = timeoutsFired s + 1"
    "length (timeoutsSet ?s) = length (timeoutsSet s) + 1"
    "maxReconnectAttempts ?s = maxReconnectAttempts s" "\<not> isConnected ?s"
    by (simp_all add: initialize_attempts initialize_status attempts_before_catch_def)
  with Suc.prems have "0 < maxReconnectAttempts ?s" and "\<not> isConnected ?s"
    and "timeoutsFired ?s < length (timeoutsSet ?s)" by simp_all
  from Suc.IH [OF this] st show ?case by simp
qed

text \<open>
  So while the server answers, every attempt connects (which resets the counter), fails in
  \<open>initializeSchema\<close> and sets the next timer: after any number of timer-driven
  attempts one more timer is pending and the counter stands at 1.
\<close>

lemma retries_while_server_answers:
  "timeoutsFired (run (replicate (Suc k) (TimeoutFires while_up)) (new_Database while_up)) = Suc k \<and>
   length (timeoutsSet (run (replicate (Suc k) (TimeoutFires while_up)) (new_Database while_up))) =
     Suc (Suc k) \<and>
   reconnectAttempts (run (replicate (Suc k) (TimeoutFires while_up)) (new_Database while_up)) = 1"
proof -
  have c: "ie_config while_up \<noteq> None" "connects (ie_conn while_up)"
    by (simp_all add: while_up_def connects_def server_up_def)
  have s0: "0 < maxReconnectAttempts (new_Database while_up)" "\<not> isConnected (new_Database while_up)"
    "timeoutsFired (new_Database while_up) = 0" "length (timeoutsSet (new_Database while_up)) = 1"
    using c
    by (simp_all add: new_Database_def initialize_attempts initialize_status
        attempts_before_catch_def constructed_def)
  then have "timeoutsFired (new_Database while_up) < length (timeoutsSet (new_Database while_up))"
    by simp
  from fires_with_connection [OF c s0(1,2) this, of k] s0 show ?thesis by simp
qed

subsection \<open>A connection test that passes\<close>

text \<open>
  C9. When \<open>testConnection\<close> returns \<open>true\<close> from a state in which \<open>isConnected\<close> is
  false, it has set \<open>isConnected\<close> and reset \<open>connectionErrors\<close> and
  \<open>reconnectAttempts\<close> to 0; the cap is armed again: with a positive
  \<open>maxReconnectAttempts\<close>, the next \<open>scheduleReconnect\<close> counts attempt 1 and sets a
  timer.
\<close>

theorem C9_successful_test_resets:
  assumes "testConnection logSuccess env s = (Inr (Some True), s')" and "\<not> isConnected s"
  shows "isConnected s' \<and> connectionErrors s' = 0 \<and> reconnectAttempts s' = 0 \<and>
         (if 0 < maxReconnectAttempts s
          then reconnectAttempts (scheduleReconnect r s') = 1 \<and>
               timeoutsSet (scheduleReconnect r s') =
                 timeoutsSet s @ [backoff_delay (reconnectDelay s) 1 r]
          else True)"
  using testConnection_status [OF assms(1)] testConnection_frame [OF assms(1)] assms(2)
  by (simp add: scheduleReconnect_attempts scheduleReconnect_timeouts)

lemma test_gave_up:
  "testConnection False server_up gave_up =
     (Inr (Some True), gave_up\<lparr>isConnected := True, connectionErrors := 0, reconnectAttempts := 0\<rparr>)"
  by (simp add: testConnection_defs server_up_def gave_up_def constructed_def)


text \<open>C9 on the instance that had given up: the test passes and the next timer is set.\<close>

theorem C9_successful_test_resets_witness:
  "testConnection False server_up gave_up =
     (Inr (Some True), gave_up\<lparr>isConnected := True, connectionErrors := 0, reconnectAttempts := 0\<rparr>) \<and>
   \<not> isConnected gave_up \<and> reconnectAttempts gave_up = 10 \<and>
   reconnectAttempts (gave_up\<lparr>isConnected := True, connectionErrors := 0, reconnectAttempts := 0\<rparr>) = 0 \<and>
   reconnectAttempts
     (scheduleReconnect (1 / 2)
        (gave_up\<lparr>isConnected := True, connectionErrors := 0, reconnectAttempts := 0\<rparr>)) = 1 \<and>
   timeoutsSet
     (scheduleReconnect (1 / 2)
        (gave_up\<lparr>isConnected := True, connectionErrors := 0, reconnectAttempts := 0\<rparr>)) = [5500]"
proof -
  have h: "\<not> isConnected gave_up" and m: "maxReconnectAttempts gave_up = 10"
    and d: "reconnectDelay gave_up = 5000" and a: "reconnectAttempts gave_up = 10"
    and t: "timeoutsSet gave_up = []"
    by (simp_all add: gave_up_def constructed_def)
  have b: "backoff_delay 5000 (Suc 0) (1 / 2) = 5500" using backoff_first by simp
  from C9_successful_test_resets [OF test_gave_up h, of "1 / 2"] m d t a h
  show ?thesis by (simp add: test_gave_up b)
qed


subsection \<open>Errors of testConnection and query\<close>

lemma testConnection_rethrows:
  "fst (testConnection l env s) = Inl e \<longleftrightarrow> fst (testConnection_try l env s) = Inl e"
  by (cases "testConnection_try l env s") (auto simp: testConnection_def split: sum.splits)

lemma testConnection_failure_log:
  assumes "testConnection l env s = (Inl e, s')"
  shows "logs s' =
           logs (snd (testConnection_try l env s)) @
             [LogError (''Database connection test failed (Error #''
                          @ string_of_nat (connectionErrors s') @ ''):'') (ErrorArg e),
              LogError ''Error details:'' (DetailsArg (code e) (errno e) (sqlState e) (sqlMessage e)),
              switch_error_code e]"
  using assms
  by (cases "testConnection_try l env s")
     (auto simp: testConnection_def testConnection_catch_def log_defs Let_def split: sum.splits)

lemma query_failure:
  assumes "query executed sql params s = (Inl e, s')"
  shows "(if pool s = None then Inl null_pool_error else executed) = Inl e"
    and "logs s' =
           logs s @ [LogError ''Database query error:'' (ErrorArg e),
                     LogError ''Query:'' (TextArg sql), LogError ''Parameters:'' (ParamsArg params)]"
  using assms by (auto simp: query_def log_defs split: sum.splits if_splits)


text \<open>
  C6. When \<open>testConnection\<close> throws \<open>e\<close>, \<open>e\<close> is the error its \<open>try\<close> block threw, and
  the last entry of the log is the message the \<open>switch\<close> selects by \<open>e.code\<close>: access
  denied, connection refused, missing database, or the generic message with \<open>e.message\<close>.
  Every error of the \<open>try\<close> block is thrown on. When \<open>query\<close> throws \<open>e'\<close>, \<open>e'\<close>
  is the error of \<open>pool.execute\<close> (the TypeError when there is no pool), and the log has
  grown by the error, the statement and the parameters. And \<open>query\<close> throws on every
  error: whatever the statement and its parameters, when \<open>pool.execute\<close> rejects with
  \<open>err\<close>, \<open>query\<close> throws that same \<open>err\<close> (the TypeError when there is no pool), after
  these three entries have been logged, and changes nothing else of the instance.
\<close>

theorem C6_errors_logged_and_rethrown:
  "(testConnection logSuccess env s = (Inl e, s') \<longrightarrow>
      fst (testConnection_try logSuccess env s) = Inl e \<and>
      logs s' \<noteq> [] \<and>
      last (logs s') =
        (if code e = Some ''ER_ACCESS_DENIED_ERROR'' then
           LogError ''Access denied. Please check database username and password.'' NoArg
         else if code e = Some ''ECONNREFUSED'' then
           LogError ''Connection refused. Please check if MySQL server is running.'' NoArg
         else if code e = Some ''ER_BAD_DB_ERROR'' then
           LogError ''Database does not exist.'' NoArg
         else LogError ''Unknown database error:'' (TextArg (js_error.message e)))) \<and>
   (fst (testConnection_try logSuccess env s) = Inl e \<longrightarrow>
      fst (testConnection logSuccess env s) = Inl e) \<and>
   (query executed sql params q = (Inl e', q') \<longrightarrow>
      (if pool q = None then Inl null_pool_error else executed) = Inl e' \<and>
      logs q' =
        logs q @ [LogError ''Database query error:'' (ErrorArg e'),
                  LogError ''Query:'' (TextArg sql), LogError ''Parameters:'' (ParamsArg params)]) \<and>
   fst (query (Inl err) sql params q) = Inl (if pool q = None then null_pool_error else err) \<and>
   snd (query (Inl err) sql params q) =
     q\<lparr>logs :=
         logs q @ [LogError ''Database query error:''
                     (ErrorArg (if pool q = None then null_pool_error else err)),
                   LogError ''Query:'' (TextArg sql), LogError ''Parameters:'' (ParamsArg params)]\<rparr>"
proof -
  have a: "testConnection logSuccess env s = (Inl e, s') \<longrightarrow>
      fst (testConnection_try logSuccess env s) = Inl e \<and>
      logs s' \<noteq> [] \<and>
      last (logs s') =
        (if code e = Some ''ER_ACCESS_DENIED_ERROR'' then
           LogError ''Access denied. Please check database username and password.'' NoArg
         else if code e = Some ''ECONNREFUSED'' then
           LogError ''Connection refused. Please check if MySQL server is running.'' NoArg
         else if code e = Some ''ER_BAD_DB_ERROR'' then
           LogError ''Database does not exist.'' NoArg
         else LogError ''Unknown database error:'' (TextArg (js_error.message e)))"
  proof
    assume t: "testConnection logSuccess env s = (Inl e, s')"
    then have "fst (testConnection logSuccess env s) = Inl e" by simp
    then have r: "fst (testConnection_try logSuccess env s) = Inl e"
      by (simp add: testConnection_rethrows)
    from testConnection_failure_log [OF t] have "logs s' \<noteq> []"
      and "last (logs s') = switch_error_code e" by simp_all
    with r show "fst (testConnection_try logSuccess env s) = Inl e \<and>
      logs s' \<noteq> [] \<and>
      last (logs s') =
        (if code e = Some ''ER_ACCESS_DENIED_ERROR'' then
           LogError ''Access denied. Please check database username and password.'' NoArg
         else if code e = Some ''ECONNREFUSED'' then
           LogError ''Connection refused. Please check if MySQL server is running.'' NoArg
         else if code e = Some ''ER_BAD_DB_ERROR'' then
           LogError ''Database does not exist.'' NoArg
         else LogError ''Unknown database error:'' (TextArg (js_error.message e)))"
      by (simp only: switch_error_code_def) simp
  qed
  have b: "fst (testConnection_try logSuccess env s) = Inl e \<longrightarrow>
      fst (testConnection logSuccess env s) = Inl e"
    by (simp add: testConnection_rethrows)
  have c: "query executed sql params q = (Inl e', q') \<longrightarrow>
      (if pool q = None then Inl null_pool_error else executed) = Inl e' \<and>
      logs q' =
        logs q @ [LogError ''Database query error:'' (ErrorArg e'),
                  LogError ''Query:'' (TextArg sql), LogError ''Parameters:'' (ParamsArg params)]"
    using query_failure [of executed sql params q e' q'] by blast
  have d: "fst (query (Inl err) sql params q) = Inl (if pool q = None then null_pool_error else err)"
    by (simp add: query_def)
  have f: "snd (query (Inl err) sql params q) =
     q\<lparr>logs :=
         logs q @ [LogError ''Database query error:''
                     (ErrorArg (if pool q = None then null_pool_error else err)),
                   LogError ''Query:'' (TextArg sql), LogError ''Parameters:'' (ParamsArg params)]\<rparr>"
    by (simp add: query_def log_defs)
  from a b c d f show ?thesis by blast
qed

lemma test_refused:
  "testConnection False server_down gave_up =
     (Inl ECONNREFUSED,
      gave_up\<lparr>connectionErrors := 12,
               logs := [LogError (''Database connection test failed (Error #'' @ string_of_nat 12 @ ''):'')
                          (ErrorArg ECONNREFUSED),
                        LogError ''Error details:''
                          (DetailsArg (Some ''ECONNREFUSED'') (Some (- 111)) None None),
                        LogError ''Connection refused. Please check if MySQL server is running.'' NoArg]\<rparr>)"
  by (simp add: testConnection_defs server_down_def server_up_def gave_up_def constructed_def
      switch_error_code_def ECONNREFUSED_def)

lemma query_refused:
  "query (Inl ECONNREFUSED) ''SELECT 1'' [] gave_up =
     (Inl ECONNREFUSED,
      gave_up\<lparr>logs := [LogError ''Database query error:'' (ErrorArg ECONNREFUSED),
                        LogError ''Query:'' (TextArg ''SELECT 1''),
                        LogError ''Parameters:'' (ParamsArg [])]\<rparr>)"
  by (simp add: query_def log_defs gave_up_def constructed_def)


text \<open>
  C6 on a refused connection, on a query without parameters that the server refuses, and
  on a query with a parameter that the server refuses.
\<close>

theorem C6_errors_logged_and_rethrown_witness:
  "fst (testConnection False server_down gave_up) = Inl ECONNREFUSED \<and>
   fst (testConnection_try False server_down gave_up) = Inl ECONNREFUSED \<and>
   last (logs (snd (testConnection False server_down gave_up))) =
     LogError ''Connection refused. Please check if MySQL server is running.'' NoArg \<and>
   fst (query (Inl ECONNREFUSED) ''SELECT 1'' [] gave_up) = Inl ECONNREFUSED \<and>
   logs (snd (query (Inl ECONNREFUSED) ''SELECT 1'' [] gave_up)) =
     [LogError ''Database query error:'' (ErrorArg ECONNREFUSED),
      LogError ''Query:'' (TextArg ''SELECT 1''), LogError ''Parameters:'' (ParamsArg [])] \<and>
   fst (query (Inl ECONNREFUSED) ''SELECT * FROM users WHERE id = ?'' [''7''] gave_up) =
     Inl ECONNREFUSED \<and>
   snd (query (Inl ECONNREFUSED) ''SELECT * FROM users WHERE id = ?'' [''7''] gave_up) =
     gave_up\<lparr>logs := [LogError ''Database query error:'' (ErrorArg ECONNREFUSED),
                       LogError ''Query:'' (TextArg ''SELECT * FROM users WHERE id = ?''),
                       LogError ''Parameters:'' (ParamsArg [''7''])]\<rparr>"
proof -
  have c: "code ECONNREFUSED = Some ''ECONNREFUSED''" by (simp add: ECONNREFUSED_def)
  have p: "pool gave_up \<noteq> None" and l: "logs gave_up = []"
    by (simp_all add: gave_up_def constructed_def)
  from C6_errors_logged_and_rethrown [of False server_down gave_up ECONNREFUSED
      "snd (testConnection False server_down gave_up)" "Inl ECONNREFUSED" "''SELECT 1''" "[]"
      gave_up ECONNREFUSED "snd (query (Inl ECONNREFUSED) ''SELECT 1'' [] gave_up)"]
    test_refused query_refused c p l
  have first: "fst (testConnection False server_down gave_up) = Inl ECONNREFUSED \<and>
   fst (testConnection_try False server_down gave_up) = Inl ECONNREFUSED \<and>
   last (logs (snd (testConnection False server_down gave_up))) =
     LogError ''Connection refused. Please check if MySQL server is running.'' NoArg \<and>
   fst (query (Inl ECONNREFUSED) ''SELECT 1'' [] gave_up) = Inl ECONNREFUSED \<and>
   logs (snd (query (Inl ECONNREFUSED) ''SELECT 1'' [] gave_up)) =
     [LogError ''Database query error:'' (ErrorArg ECONNREFUSED),
      LogError ''Query:'' (TextArg ''SELECT 1''), LogError ''Parameters:'' (ParamsArg [])]"
    by simp
  from C6_errors_logged_and_rethrown [of False server_down gave_up ECONNREFUSED
      "snd (testConnection False server_down gave_up)" "Inl ECONNREFUSED"
      "''SELECT * FROM users WHERE id = ?''" "[''7'']"
      gave_up ECONNREFUSED
      "snd (query (Inl ECONNREFUSED) ''SELECT * FROM users WHERE id = ?'' [''7''] gave_up)"
      ECONNREFUSED] p l
  have second: "fst (query (Inl ECONNREFUSED) ''SELECT * FROM users WHERE id = ?'' [''7''] gave_up) =
     Inl ECONNREFUSED \<and>
   snd (query (Inl ECONNREFUSED) ''SELECT * FROM users WHERE id = ?'' [''7''] gave_up) =
     gave_up\<lparr>logs := [LogError ''Database query error:'' (ErrorArg ECONNREFUSED),
                       LogError ''Query:'' (TextArg ''SELECT * FROM users WHERE id = ?''),
                       LogError ''Parameters:'' (ParamsArg [''7''])]\<rparr>"
    by simp
  from first second show ?thesis by blast
qed


subsection \<open>The health check\<close>

lemma healthCheckCallback_isConnected:
  "isConnected (healthCheckCallback r env s) =
     (case fst (testConnection False env s) of
        Inl e \<Rightarrow> False
      | Inr v \<Rightarrow> v = Some True \<or> isConnected s)"
proof -
  obtain rt s1 where t: "testConnection False env s = (rt, s1)" by force
  from testConnection_status(3) [OF t] show ?thesis
    by (auto simp: healthCheckCallback_def t Let_def log_defs scheduleReconnect_frame
        split: sum.splits)
qed

lemma server_down_throws:
  "pool s \<noteq> None \<Longrightarrow> fst (testConnection l server_down s) = Inl ECONNREFUSED"
  by (auto simp: testConnection_def testConnection_try_def server_down_def)

text \<open>
  C7 says that a failing health check sets \<open>isConnected\<close> to false and calls
  \<open>scheduleReconnect\<close>. The first holds and the second never happens
  (\<open>healthCheckCallback_status\<close>: the callback sets no timer): the \<open>catch\<close> block of
  \<open>testConnection\<close> has cleared \<open>isConnected\<close> before the callback tests it. Here the
  instance has given up after ten refused attempts (ten timers set, the counter at 10);
  the server comes back and a health check passes (\<open>isConnected\<close> is true, the counter
  0); the next health check finds the server down: its connection test throws,
  \<open>isConnected\<close> is false afterwards, and still only ten timers have ever been set and
  the counter is 0.
\<close>

theorem C7_health_check_failing_input:
  "reconnectAttempts abandoned = 10 \<and> length (timeoutsSet abandoned) = 10 \<and>
   intervals abandoned \<noteq> [] \<and>
   isConnected (run [IntervalFires (1 / 2) server_up] abandoned) \<and>
   reconnectAttempts (run [IntervalFires (1 / 2) server_up] abandoned) = 0 \<and>
   fst (testConnection False server_down (run [IntervalFires (1 / 2) server_up] abandoned)) =
     Inl ECONNREFUSED \<and>
   \<not> isConnected
       (run [IntervalFires (1 / 2) server_up, IntervalFires (1 / 2) server_down] abandoned) \<and>
   length (timeoutsSet
       (run [IntervalFires (1 / 2) server_up, IntervalFires (1 / 2) server_down] abandoned)) = 10 \<and>
   reconnectAttempts
       (run [IntervalFires (1 / 2) server_up, IntervalFires (1 / 2) server_down] abandoned) = 0"
proof -
  let ?s1 = "healthCheckCallback (1 / 2) server_up abandoned"
  have a0: "reconnectAttempts abandoned = 10" and l0: "length (timeoutsSet abandoned) = 10"
    and c0: "\<not> isConnected abandoned" and p0: "pool abandoned \<noteq> None"
    and i0: "intervals abandoned \<noteq> []"
    unfolding abandoned_def by (rule ten_failures)+
  obtain r1 s1 where t1: "testConnection False server_up abandoned = (r1, s1)" by force
  from testConnection_status(1) [OF t1] p0 have r1: "r1 = Inr (Some True)"
    by (simp add: server_up_connects)
  have c1: "isConnected ?s1" by (simp add: healthCheckCallback_isConnected t1 r1)
  have a1: "reconnectAttempts ?s1 = 0"
    by (simp add: healthCheckCallback_status p0 c0 server_up_connects)
  have l1: "length (timeoutsSet ?s1) = 10" by (simp add: healthCheckCallback_status l0)
  have s1: "?s1 = s1" by (simp add: healthCheckCallback_def t1 r1)
  from testConnection_frame [OF t1] p0 i0 have p1: "pool ?s1 \<noteq> None" and i1: "intervals ?s1 \<noteq> []"
    by (simp_all add: s1)
  have t2: "fst (testConnection False server_down ?s1) = Inl ECONNREFUSED"
    using p1 by (rule server_down_throws)
  have run1: "run [IntervalFires (1 / 2) server_up] abandoned = ?s1" by (simp add: i0)
  have run2: "run [IntervalFires (1 / 2) server_up, IntervalFires (1 / 2) server_down] abandoned =
                healthCheckCallback (1 / 2) server_down ?s1"
    by (simp add: i0 i1)
  show ?thesis
    unfolding run1 run2
    using a0 l0 i0 c1 a1 l1 t2
    by (simp add: healthCheckCallback_isConnected healthCheckCallback_status server_down_refuses)
qed

section \<open>Properties of the global error handler\<close>









section \<open>Properties of the validation middleware\<close>

text \<open>
  C10. \<open>validate\<close> does one of two things. With validation errors it sets the status 400
  and sends \<open>{success: false, errors}\<close>, every error mapped to
  \<open>{field: error.param, message: error.msg}\<close>, and does not call \<open>next\<close>; with none it
  calls \<open>next\<close> once and sends nothing.
\<close>

theorem C10_validate:
  "(validationResult \<noteq> [] \<longrightarrow>
      validate validationResult =
        [Status 400,
         Json \<lparr>success = False,
               errors = map (\<lambda>error. \<lparr>field = param error, message = msg error\<rparr>)
                          validationResult\<rparr>] \<and>
      count_list (validate validationResult) Next = 0) \<and>
   (validationResult = [] \<longrightarrow>
      validate validationResult = [Next] \<and>
      count_list (validate validationResult) Next = 1)"
  by (simp add: validate_def)


text \<open>C10 on a request with one invalid field and on a valid request.\<close>

theorem C10_validate_witness:
  "validate [\<lparr>param = ''email'', msg = ''Invalid value''\<rparr>] =
     [Status 400,
      Json \<lparr>success = False, errors = [\<lparr>field = ''email'', message = ''Invalid value''\<rparr>]\<rparr>] \<and>
   count_list (validate [\<lparr>param = ''email'', msg = ''Invalid value''\<rparr>]) Next = 0 \<and>
   validate [] = [Next] \<and> count_list (validate []) Next = 1"
  using C10_validate [of "[\<lparr>param = ''email'', msg = ''Invalid value''\<rparr>]"] C10_validate [of "[]"]
  by simp

section \<open>Properties of the schema\<close>

subsection \<open>Running the script twice\<close>

lemma create_table_stmt_present:
  "create_table_stmt ct db = Inr db' \<Longrightarrow> map_of db' (ct_name ct) \<noteq> None"
  by (auto simp: create_table_stmt_def map_add_def split: if_splits)

lemma create_table_stmt_keeps:
  "create_table_stmt ct db = Inr db' \<Longrightarrow> map_of db n \<noteq> None \<Longrightarrow> map_of db' n \<noteq> None"
  by (auto simp: create_table_stmt_def map_add_def split: if_splits option.splits)

lemma run_script_keeps:
  "map_of db n \<noteq> None \<Longrightarrow> map_of (snd (run_script cs db)) n \<noteq> None"
proof (induction cs arbitrary: db)
  case Nil
  then show ?case by simp
next
  case (Cons c cs)
  show ?case
  proof (cases "create_table_stmt c db")
    case (Inl e)
    with Cons.prems show ?thesis by simp
  next
    case (Inr db1)
    from create_table_stmt_keeps [OF Inr Cons.prems] have "map_of db1 n \<noteq> None" .
    from Cons.IH [OF this] Inr show ?thesis by simp
  qed
qed

lemma create_table_stmt_again:
  "if_not_exists ct \<Longrightarrow> map_of db (ct_name ct) \<noteq> None \<Longrightarrow> create_table_stmt ct db = Inr db"
  by (simp add: create_table_stmt_def)

lemma run_script_again:
  "list_all if_not_exists cs \<Longrightarrow> run_script cs db = (r, db') \<Longrightarrow> run_script cs db' = (r, db')"
proof (induction cs arbitrary: db)
  case Nil
  then show ?case by simp
next
  case (Cons c cs)
  show ?case
  proof (cases "create_table_stmt c db")
    case (Inl e)
    with Cons.prems show ?thesis by auto
  next
    case (Inr db1)
    with Cons.prems have rest: "run_script cs db1 = (r, db')" and all: "list_all if_not_exists cs"
      and c: "if_not_exists c" by simp_all
    from create_table_stmt_present [OF Inr] have "map_of db1 (ct_name c) \<noteq> None" .
    from run_script_keeps [OF this, of cs] rest have "map_of db' (ct_name c) \<noteq> None" by simp
    from create_table_stmt_again [OF c this] Cons.IH [OF all rest] show ?thesis by simp
  qed
qed

lemma schema_sql_if_not_exists: "list_all if_not_exists schema_sql"
  by (simp add: schema_sql_def users_def quizzes_def questions_def)

lemma fresh_run: "run_script schema_sql [] =
    (None, [(''users'', \<lparr>decl = users, table_rows = []\<rparr>),
            (''quizzes'', \<lparr>decl = quizzes, table_rows = []\<rparr>),
            (''questions'', \<lparr>decl = questions, table_rows = []\<rparr>)])"
  by (simp add: schema_sql_def create_table_stmt_def foreign_key_ok_def users_def quizzes_def
      questions_def users_fk_def quizzes_fk_def col_def created_at_def updated_at_def)


text \<open>
  C5. Whatever the database was before, running the three \<open>CREATE TABLE IF NOT EXISTS\<close>
  statements on the state a first run has left ends with the same outcome and the same
  state: the second run changes nothing.
\<close>

theorem C5_schema_idempotent:
  "run_script schema_sql (snd (run_script schema_sql db)) = run_script schema_sql db"
  using run_script_again [OF schema_sql_if_not_exists, of db] by (metis prod.collapse)


text \<open>C5 from the empty database: the first run creates the three tables, the second none.\<close>

theorem C5_schema_idempotent_witness:
  "run_script schema_sql [] = (None, three_tables [] [] []) \<and>
   run_script schema_sql (three_tables [] [] []) = (None, three_tables [] [] [])"
  using C5_schema_idempotent [of "[]"] by (simp add: fresh_run three_tables_def)


subsection \<open>Deleting users and quizzes\<close>



























end
